theory Spec2Isabelle
  imports Complex_Main "HOL-Library.AList"
begin

section \<open>Conventions of the embedding\<close>

text \<open>
  The TypeScript sources are embedded function by function. A JavaScript \<open>number\<close> is
  modelled as a \<^typ>\<open>real\<close>: arithmetic is exact, and the special values NaN and the
  infinities are outside the model, except for the quotients whose divisor a caller can
  make zero, which get a result type of their own, and for the running total of the
  ledger, which is embedded a second time in double precision. A valid \<open>Date\<close> is its \<open>getTime()\<close>
  value, an \<^typ>\<open>int\<close> of milliseconds since the epoch. A JavaScript \<open>Map\<close> is an
  association list in insertion order with \<^const>\<open>map_of\<close> as \<open>get\<close> and
  \<^const>\<open>AList.update\<close> as \<open>set\<close> (replace in place, else append). Mutation of \<open>this\<close>
  is explicit state passing, and \<open>new Date()\<close> is a parameter \<open>now\<close> of the function that
  reads the clock. What the venue answers to a call is a parameter as well.
\<close>

section \<open>Quotients\<close>

text \<open>
  A JavaScript division does not fail on a zero divisor: it yields an infinity or NaN.
  HOL's \<open>x / 0\<close> is \<open>0\<close>, so every quotient of the sources whose divisor is not
  guarded is a \<open>jsnum\<close>. Comparisons with NaN are false. (The sign of a zero divisor is
  not modelled: a zero divisor is \<open>+0\<close>.)
\<close>

datatype jsnum = Fin real | PosInfinity | NegInfinity | NaN

definition js_div :: "real \<Rightarrow> real \<Rightarrow> jsnum" where
  "js_div a b = (if b \<noteq> 0 then Fin (a / b)
                 else if a > 0 then PosInfinity else if a < 0 then NegInfinity else NaN)"

fun js_less :: "jsnum \<Rightarrow> real \<Rightarrow> bool" where
  "js_less (Fin a) c = (a < c)"
| "js_less NegInfinity c = True"
| "js_less PosInfinity c = False"
| "js_less NaN c = False"

fun js_greater :: "jsnum \<Rightarrow> real \<Rightarrow> bool" where
  "js_greater (Fin a) c = (a > c)"
| "js_greater PosInfinity c = True"
| "js_greater NegInfinity c = False"
| "js_greater NaN c = False"

section \<open>Risk manager (\<open>risk-manager.ts\<close>)\<close>

datatype Outcome = YES | NO

datatype Side = Buy | Sell

record Position =
  pos_marketId :: string
  pos_outcome :: Outcome
  pos_side :: Side
  pos_sizeUsd :: real
  pos_entryPrice :: real
  pos_timestamp :: int

record RiskConfig =
  maxTotalExposureUsd :: real
  maxPositionPerMarketUsd :: real
  maxDailyLossUsd :: real
  enableAutoHedge :: bool
  minBalanceUsd :: real

record RiskManager =
  rm_config :: RiskConfig
  rm_positions :: "(string \<times> Position list) list"
  rm_totalExposure :: real
  rm_dailyPnl :: real
  rm_lastResetDate :: int

text \<open>The constructor: empty ledger, reset date set to the time of construction.\<close>

definition new_RiskManager :: "RiskConfig \<Rightarrow> int \<Rightarrow> RiskManager" where
  "new_RiskManager cfg now =
     \<lparr>rm_config = cfg, rm_positions = [], rm_totalExposure = 0, rm_dailyPnl = 0,
      rm_lastResetDate = now\<rparr>"

text \<open>\<open>positions.reduce((sum, p) => sum + p.sizeUsd, 0)\<close>\<close>

definition sumSizeUsd :: "Position list \<Rightarrow> real" where
  "sumSizeUsd ps = foldl (\<lambda>sum p. sum + pos_sizeUsd p) 0 ps"

text \<open>\<open>this.positions.get(marketId) || []\<close>\<close>

definition positionsOrEmpty :: "RiskManager \<Rightarrow> string \<Rightarrow> Position list" where
  "positionsOrEmpty rm mid = (case map_of (rm_positions rm) mid of None \<Rightarrow> [] | Some ps \<Rightarrow> ps)"

text \<open>
  \<open>canOpenPosition\<close> returns after the first check that fails, and each failing check
  logs its own warning. \<open>canOpenPosition_warning\<close> is the warning that is logged, in the
  order of the source; \<open>canOpenPosition\<close> is the boolean the method returns. Nothing in
  the \<open>try\<close> block can throw on these types, so the \<open>catch\<close> branch has no counterpart.
\<close>

datatype RiskWarning = DailyLossLimitReached | TotalExposureLimit | MarketExposureLimit

definition canOpenPosition_warning :: "RiskManager \<Rightarrow> string \<Rightarrow> real \<Rightarrow> RiskWarning option" where
  "canOpenPosition_warning rm mid sizeUsd =
     (if rm_dailyPnl rm \<le> - maxDailyLossUsd (rm_config rm) then Some DailyLossLimitReached
      else let newTotalExposure = rm_totalExposure rm + sizeUsd in
        if newTotalExposure > maxTotalExposureUsd (rm_config rm) then Some TotalExposureLimit
        else let marketPositions = positionsOrEmpty rm mid;
                 marketExposure = sumSizeUsd marketPositions;
                 newMarketExposure = marketExposure + sizeUsd in
          if newMarketExposure > maxPositionPerMarketUsd (rm_config rm)
          then Some MarketExposureLimit
          else None)"

definition canOpenPosition :: "RiskManager \<Rightarrow> string \<Rightarrow> real \<Rightarrow> bool" where
  "canOpenPosition rm mid sizeUsd = (canOpenPosition_warning rm mid sizeUsd = None)"

text \<open>
  \<open>recordPosition\<close>: the optional \<open>entryPrice\<close> is an \<^typ>\<open>real option\<close>;
  \<open>entryPrice || 0.0\<close> is \<open>0\<close> for a missing price and for the price \<open>0\<close>.
\<close>

definition recordPosition ::
  "RiskManager \<Rightarrow> string \<Rightarrow> real \<Rightarrow> Outcome \<Rightarrow> Side \<Rightarrow> real option \<Rightarrow> int \<Rightarrow> RiskManager" where
  "recordPosition rm mid sizeUsd outc sd entryPrice now =
     (let positions0 = (if map_of (rm_positions rm) mid = None
                        then AList.update mid [] (rm_positions rm) else rm_positions rm);
          position = \<lparr>pos_marketId = mid, pos_outcome = outc, pos_side = sd,
                      pos_sizeUsd = sizeUsd,
                      pos_entryPrice = (case entryPrice of None \<Rightarrow> 0 | Some e \<Rightarrow> e),
                      pos_timestamp = now\<rparr>;
          positions = (case map_of positions0 mid of None \<Rightarrow> [] | Some ps \<Rightarrow> ps)
      in rm\<lparr>rm_positions := AList.update mid (positions @ [position]) positions0,
            rm_totalExposure := rm_totalExposure rm + sizeUsd\<rparr>)"

text \<open>
  \<open>closePosition\<close>: \<open>positions.splice(positions.indexOf(position), 1)\<close> removes the first
  occurrence of the first matching position, which is \<^const>\<open>remove1\<close>. \<open>exitPrice &&
  \<dots>\<close> is false for a missing exit price and for the exit price \<open>0\<close>. The result is the
  returned PnL (\<open>None\<close> for \<open>null\<close>) and the ledger after the call.
\<close>

definition closePosition ::
  "RiskManager \<Rightarrow> string \<Rightarrow> Outcome \<Rightarrow> real option \<Rightarrow> real option \<times> RiskManager" where
  "closePosition rm mid outc exitPrice =
     (case map_of (rm_positions rm) mid of
        None \<Rightarrow> (None, rm)
      | Some positions \<Rightarrow>
          if positions = [] then (None, rm)
          else let matchingPositions =
                     filter (\<lambda>p. pos_outcome p = outc \<and> pos_side p = Buy) positions in
            (case matchingPositions of
               [] \<Rightarrow> (None, rm)
             | position # _ \<Rightarrow>
                 let pnl = (case exitPrice of
                              None \<Rightarrow> 0
                            | Some e \<Rightarrow>
                                if e \<noteq> 0 \<and> pos_entryPrice position > 0
                                then (e - pos_entryPrice position) * pos_sizeUsd position
                                       / pos_entryPrice position
                                else 0)
                 in (Some pnl,
                     rm\<lparr>rm_positions := AList.update mid (remove1 position positions)
                                            (rm_positions rm),
                        rm_totalExposure := rm_totalExposure rm - pos_sizeUsd position,
                        rm_dailyPnl := rm_dailyPnl rm + pnl\<rparr>)))"

text \<open>
  \<open>Date.prototype.getDate()\<close> is the day of the month (1 to 31) of the date in local
  time. The model takes the local time zone to be UTC and computes the civil date of a
  time stamp with the usual days-to-civil conversion of the proleptic Gregorian calendar;
  \<open>civilDate\<close> is (\<open>getFullYear()\<close>, \<open>getMonth() + 1\<close>, \<open>getDate()\<close>).
\<close>

definition civilDate :: "int \<Rightarrow> int \<times> int \<times> int" where
  "civilDate t =
     (let z = t div 86400000 + 719468;
          era = z div 146097;
          doe = z - era * 146097;
          yoe = (doe - doe div 1460 + doe div 36524 - doe div 146096) div 365;
          doy = doe - (365 * yoe + yoe div 4 - yoe div 100);
          mp = (5 * doy + 2) div 153;
          d = doy - (153 * mp + 2) div 5 + 1;
          m = (if mp < 10 then mp + 3 else mp - 9);
          y = yoe + era * 400 + (if m \<le> 2 then 1 else 0)
      in (y, m, d))"

definition getDate :: "int \<Rightarrow> int" where
  "getDate t = snd (snd (civilDate t))"

record ExposureMetrics =
  totalExposureUsd :: real
  dailyPnlUsd :: real
  openPositions :: nat
  marketExposures :: "(string \<times> real) list"
  availableExposure :: real

text \<open>
  \<open>getExposure\<close> first resets the daily PnL when the day of the month of the clock
  differs from that of the last reset, then builds the metrics. \<open>marketExposures\<close>, a
  \<open>Record<string, number>\<close> filled once per key of the map, is an association list.
\<close>

definition getExposure :: "RiskManager \<Rightarrow> int \<Rightarrow> ExposureMetrics \<times> RiskManager" where
  "getExposure rm currentDate =
     (let rm' = (if getDate currentDate \<noteq> getDate (rm_lastResetDate rm)
                 then rm\<lparr>rm_dailyPnl := 0, rm_lastResetDate := currentDate\<rparr> else rm)
      in (\<lparr>totalExposureUsd = rm_totalExposure rm',
           dailyPnlUsd = rm_dailyPnl rm',
           openPositions = foldl (\<lambda>sum p. sum + length p) 0 (map snd (rm_positions rm')),
           marketExposures = map (\<lambda>(marketId, positions). (marketId, sumSizeUsd positions))
                                 (rm_positions rm'),
           availableExposure = maxTotalExposureUsd (rm_config rm') - rm_totalExposure rm'\<rparr>,
          rm'))"

subsection \<open>Sequences of ledger calls\<close>

text \<open>
  A call of \<open>recordPosition\<close> (with the clock value it reads) or of \<open>closePosition\<close>.
\<close>

datatype LedgerCall =
  RecordPosition string real Outcome Side "real option" int
| ClosePosition string Outcome "real option"

fun ledgerCall :: "RiskManager \<Rightarrow> LedgerCall \<Rightarrow> RiskManager" where
  "ledgerCall rm (RecordPosition mid sizeUsd outc sd entryPrice now) =
     recordPosition rm mid sizeUsd outc sd entryPrice now"
| "ledgerCall rm (ClosePosition mid outc exitPrice) = snd (closePosition rm mid outc exitPrice)"

definition ledgerCalls :: "RiskManager \<Rightarrow> LedgerCall list \<Rightarrow> RiskManager" where
  "ledgerCalls rm calls = foldl ledgerCall rm calls"

text \<open>
  The currently open positions as the specification words them, independent of how the
  ledger stores them: a position is created by an open and removed by a close, and a
  close removes the oldest open position of the given market and outcome with side buy.
\<close>

fun openPositions_spec_step :: "Position list \<Rightarrow> LedgerCall \<Rightarrow> Position list" where
  "openPositions_spec_step opn (RecordPosition mid sizeUsd outc sd entryPrice now) =
     opn @ [\<lparr>pos_marketId = mid, pos_outcome = outc, pos_side = sd, pos_sizeUsd = sizeUsd,
             pos_entryPrice = (case entryPrice of None \<Rightarrow> 0 | Some e \<Rightarrow> e),
             pos_timestamp = now\<rparr>]"
| "openPositions_spec_step opn (ClosePosition mid outc exitPrice) =
     (case List.find (\<lambda>p. pos_marketId p = mid \<and> pos_outcome p = outc \<and> pos_side p = Buy) opn of
        None \<Rightarrow> opn
      | Some p \<Rightarrow> remove1 p opn)"

definition openPositions_spec :: "LedgerCall list \<Rightarrow> Position list" where
  "openPositions_spec calls = foldl openPositions_spec_step [] calls"

text \<open>
  The invariant that ties the ledger to the open positions of the specification: the keys
  of the map are distinct, the list stored for a market is the open positions of that
  market in order, and the running total is the sum of their sizes.
\<close>

definition ledger_inv :: "RiskManager \<Rightarrow> Position list \<Rightarrow> bool" where
  "ledger_inv rm opn \<longleftrightarrow>
     distinct (map fst (rm_positions rm))
   \<and> (\<forall>mid. positionsOrEmpty rm mid = filter (\<lambda>p. pos_marketId p = mid) opn)
   \<and> length (concat (map snd (rm_positions rm))) = length opn
   \<and> rm_totalExposure rm = sum_list (map pos_sizeUsd opn)"

subsection \<open>The ledger in double precision\<close>

text \<open>
  The running total \<open>totalExposure\<close> is kept by \<open>+=\<close> and \<open>-=\<close> on IEEE 754 doubles, and a
  subtraction does not undo the rounding of an earlier addition. Where that matters the
  ledger is embedded a second time with every arithmetic operation rounded. A finite
  double is the real number it denotes. \<open>fl\<close> rounds a real to the nearest double, ties to
  the even mantissa: the last of the 53 mantissa bits of \<open>x\<close> has the exponent
  \<open>\<lfloor>log\<^sub>2 |x|\<rfloor> - 52\<close>, and not less than \<open>-1074\<close> (subnormal numbers). A result of
  magnitude \<open>2\<^sup>1\<^sup>0\<^sup>2\<^sup>4\<close> or more is an infinity in IEEE arithmetic and outside this
  model; \<open>exact_double\<close> says that a real is a finite double, so that an operation with
  this exact result does not round.

  \<open>exponent x\<close> is \<open>\<lfloor>log\<^sub>2 |x|\<rfloor>\<close>, computed by halving a magnitude of at least 1 until it is
  below 2 and by doubling a smaller one until it reaches 1; \<open>pow2 e\<close> is \<open>2\<^sup>e\<close> for an integer
  \<open>e\<close> of either sign.
\<close>

function exponent_up :: "real \<Rightarrow> int" where
  "exponent_up x = (if x < 2 then 0 else exponent_up (x / 2) + 1)"
  by pat_completeness auto
termination
proof (relation "measure (\<lambda>x. nat \<lfloor>x\<rfloor>)")
  show "wf (measure (\<lambda>x::real. nat \<lfloor>x\<rfloor>))" by simp
next
  fix x :: real
  assume "\<not> x < 2"
  then have "\<lfloor>x / 2\<rfloor> < \<lfloor>x\<rfloor>" "0 < \<lfloor>x\<rfloor>"
    by linarith+
  then show "(x / 2, x) \<in> measure (\<lambda>x. nat \<lfloor>x\<rfloor>)" by simp
qed

function exponent_down :: "real \<Rightarrow> int" where
  "exponent_down x = (if x \<le> 0 \<or> 1 \<le> x then 0 else exponent_down (x * 2) - 1)"
  by pat_completeness auto
termination
proof (relation "measure (\<lambda>x. nat \<lfloor>1 / x\<rfloor>)")
  show "wf (measure (\<lambda>x::real. nat \<lfloor>1 / x\<rfloor>))" by simp
next
  fix x :: real
  assume a: "\<not> (x \<le> 0 \<or> 1 \<le> x)"
  then have x: "0 < x" "x < 1" by simp_all
  define y where "y = 1 / x"
  have "1 < y" using x by (simp add: y_def)
  have "\<lfloor>y / 2\<rfloor> < \<lfloor>y\<rfloor>"
  proof (cases "y < 2")
    case True
    have "\<lfloor>y / 2\<rfloor> = 0" "\<lfloor>y\<rfloor> = 1"
      using True \<open>1 < y\<close> by (simp_all add: floor_eq_iff)
    then show ?thesis by simp
  next
    case False
    then show ?thesis by linarith
  qed
  moreover have "0 < \<lfloor>y\<rfloor>" using \<open>1 < y\<close> by simp
  moreover have "1 / (x * 2) = y / 2" by (simp add: y_def)
  ultimately have "nat \<lfloor>1 / (x * 2)\<rfloor> < nat \<lfloor>y\<rfloor>"
    by (simp only: zless_nat_conj)
  then have "nat \<lfloor>1 / (x * 2)\<rfloor> < nat \<lfloor>1 / x\<rfloor>"
    by (simp only: y_def)
  then show "(x * 2, x) \<in> measure (\<lambda>x. nat \<lfloor>1 / x\<rfloor>)"
    by (simp only: in_measure)
qed

declare exponent_up.simps [simp del] exponent_down.simps [simp del]

definition exponent :: "real \<Rightarrow> int" where
  "exponent x = (if 1 \<le> \<bar>x\<bar> then exponent_up \<bar>x\<bar> else exponent_down \<bar>x\<bar>)"

definition pow2 :: "int \<Rightarrow> real" where
  "pow2 e = (if 0 \<le> e then 2 ^ nat e else 1 / 2 ^ nat (- e))"

definition round_even :: "real \<Rightarrow> int" where
  "round_even y =
     (let f = \<lfloor>y\<rfloor>; r = y - of_int f
      in if r < 1 / 2 then f else if r > 1 / 2 then f + 1 else if even f then f else f + 1)"

definition fl :: "real \<Rightarrow> real" where
  "fl x =
     (if x = 0 then 0
      else let e = max (exponent x - 52) (- 1074)
           in of_int (round_even (x / pow2 e)) * pow2 e)"

definition exact_double :: "real \<Rightarrow> bool" where
  "exact_double v \<longleftrightarrow> fl v = v \<and> \<bar>v\<bar> < 2 ^ 1024"

text \<open>\<open>positions.reduce((sum, p) => sum + p.sizeUsd, 0)\<close> in doubles.\<close>

definition sumSizeUsd_ieee :: "Position list \<Rightarrow> real" where
  "sumSizeUsd_ieee ps = foldl (\<lambda>sum p. fl (sum + pos_sizeUsd p)) 0 ps"

definition recordPosition_ieee ::
  "RiskManager \<Rightarrow> string \<Rightarrow> real \<Rightarrow> Outcome \<Rightarrow> Side \<Rightarrow> real option \<Rightarrow> int \<Rightarrow> RiskManager" where
  "recordPosition_ieee rm mid sizeUsd outc sd entryPrice now =
     (let positions0 = (if map_of (rm_positions rm) mid = None
                        then AList.update mid [] (rm_positions rm) else rm_positions rm);
          position = \<lparr>pos_marketId = mid, pos_outcome = outc, pos_side = sd,
                      pos_sizeUsd = sizeUsd,
                      pos_entryPrice = (case entryPrice of None \<Rightarrow> 0 | Some e \<Rightarrow> e),
                      pos_timestamp = now\<rparr>;
          positions = (case map_of positions0 mid of None \<Rightarrow> [] | Some ps \<Rightarrow> ps)
      in rm\<lparr>rm_positions := AList.update mid (positions @ [position]) positions0,
            rm_totalExposure := fl (rm_totalExposure rm + sizeUsd)\<rparr>)"

definition closePosition_ieee ::
  "RiskManager \<Rightarrow> string \<Rightarrow> Outcome \<Rightarrow> real option \<Rightarrow> real option \<times> RiskManager" where
  "closePosition_ieee rm mid outc exitPrice =
     (case map_of (rm_positions rm) mid of
        None \<Rightarrow> (None, rm)
      | Some positions \<Rightarrow>
          if positions = [] then (None, rm)
          else let matchingPositions =
                     filter (\<lambda>p. pos_outcome p = outc \<and> pos_side p = Buy) positions in
            (case matchingPositions of
               [] \<Rightarrow> (None, rm)
             | position # _ \<Rightarrow>
                 let pnl = (case exitPrice of
                              None \<Rightarrow> 0
                            | Some e \<Rightarrow>
                                if e \<noteq> 0 \<and> pos_entryPrice position > 0
                                then fl (fl (fl (e - pos_entryPrice position)
                                              * pos_sizeUsd position)
                                         / pos_entryPrice position)
                                else 0)
                 in (Some pnl,
                     rm\<lparr>rm_positions := AList.update mid (remove1 position positions)
                                            (rm_positions rm),
                        rm_totalExposure := fl (rm_totalExposure rm - pos_sizeUsd position),
                        rm_dailyPnl := fl (rm_dailyPnl rm + pnl)\<rparr>)))"

definition getExposure_ieee :: "RiskManager \<Rightarrow> int \<Rightarrow> ExposureMetrics \<times> RiskManager" where
  "getExposure_ieee rm currentDate =
     (let rm' = (if getDate currentDate \<noteq> getDate (rm_lastResetDate rm)
                 then rm\<lparr>rm_dailyPnl := 0, rm_lastResetDate := currentDate\<rparr> else rm)
      in (\<lparr>totalExposureUsd = rm_totalExposure rm',
           dailyPnlUsd = rm_dailyPnl rm',
           openPositions = foldl (\<lambda>sum p. sum + length p) 0 (map snd (rm_positions rm')),
           marketExposures = map (\<lambda>(marketId, positions). (marketId, sumSizeUsd_ieee positions))
                                 (rm_positions rm'),
           availableExposure = fl (maxTotalExposureUsd (rm_config rm') - rm_totalExposure rm')\<rparr>,
          rm'))"

fun ledgerCall_ieee :: "RiskManager \<Rightarrow> LedgerCall \<Rightarrow> RiskManager" where
  "ledgerCall_ieee rm (RecordPosition mid sizeUsd outc sd entryPrice now) =
     recordPosition_ieee rm mid sizeUsd outc sd entryPrice now"
| "ledgerCall_ieee rm (ClosePosition mid outc exitPrice) =
     snd (closePosition_ieee rm mid outc exitPrice)"

definition ledgerCalls_ieee :: "RiskManager \<Rightarrow> LedgerCall list \<Rightarrow> RiskManager" where
  "ledgerCalls_ieee rm calls = foldl ledgerCall_ieee rm calls"

text \<open>
  A sequence of calls leaves the running total free of rounding when each \<open>+=\<close> and each
  \<open>-=\<close> it performs has a result that is a double. \<open>closingPosition\<close> is the position a
  \<open>closePosition\<close> call removes, if any.
\<close>

definition closingPosition :: "RiskManager \<Rightarrow> string \<Rightarrow> Outcome \<Rightarrow> Position option" where
  "closingPosition rm mid outc =
     (case filter (\<lambda>p. pos_outcome p = outc \<and> pos_side p = Buy) (positionsOrEmpty rm mid) of
        [] \<Rightarrow> None
      | position # _ \<Rightarrow> Some position)"

fun exactStep :: "RiskManager \<Rightarrow> LedgerCall \<Rightarrow> bool" where
  "exactStep rm (RecordPosition mid sizeUsd outc sd entryPrice now) =
     exact_double (rm_totalExposure rm + sizeUsd)"
| "exactStep rm (ClosePosition mid outc exitPrice) =
     (case closingPosition rm mid outc of
        None \<Rightarrow> True
      | Some position \<Rightarrow> exact_double (rm_totalExposure rm - pos_sizeUsd position))"

fun exactTotal :: "RiskManager \<Rightarrow> LedgerCall list \<Rightarrow> bool" where
  "exactTotal rm [] = True"
| "exactTotal rm (c # calls) = (exactStep rm c \<and> exactTotal (ledgerCall_ieee rm c) calls)"

section \<open>Arbitrage detector (\<open>arbitrage-detector.ts\<close>)\<close>

record ArbitrageConfig =
  minArbProfitPct :: real
  maxArbProfitPct :: real
  internalArbEnabled :: bool
  crossPlatformEnabled :: bool
  minLiquidityUsd :: real
  maxSlippagePct :: real

datatype OpportunityType = Internal | CrossPlatform

record ArbitrageOpportunity =
  opp_marketId :: string
  opp_marketQuestion :: string
  opp_opportunityType :: OpportunityType
  opp_yesPrice :: real
  opp_noPrice :: real
  opp_totalCost :: real
  opp_profitPct :: jsnum
  opp_profitUsd :: jsnum
  opp_liquidityYes :: real
  opp_liquidityNo :: real
  opp_timestamp :: int

text \<open>
  The order book is the untyped value \<open>getOrderBook\<close> resolves to. The model keeps what
  the detector reads: per outcome the list \<open>outcomes[outcome].asks || []\<close>, each ask with
  its parsed price and its optional size, and \<open>market.question\<close> when present.
\<close>

record Ask =
  ask_price :: real
  ask_size :: "real option"

record OrderBook =
  ob_asks :: "Outcome \<Rightarrow> Ask list"
  ob_question :: "string option"

text \<open>What one call of \<open>pmClient.getOrderBook\<close> does: throw, resolve to null, or a book.\<close>

datatype BookFetch = BookThrows | BookNull | Book OrderBook

record ArbitrageDetector =
  ad_config :: ArbitrageConfig
  ad_activeOpportunities :: "(string \<times> ArbitrageOpportunity) list"

definition new_ArbitrageDetector :: "ArbitrageConfig \<Rightarrow> ArbitrageDetector" where
  "new_ArbitrageDetector cfg = \<lparr>ad_config = cfg, ad_activeOpportunities = []\<rparr>"

text \<open>
  \<open>getBestAsk\<close>: \<open>Array.prototype.sort\<close> is stable, as is \<^const>\<open>sort_key\<close>; the best
  ask is the first ask of lowest price.
\<close>

definition getBestAsk :: "OrderBook \<Rightarrow> Outcome \<Rightarrow> Ask option" where
  "getBestAsk orderBook outc =
     (let asks = ob_asks orderBook outc in
      if asks = [] then None
      else (case sort_key ask_price asks of [] \<Rightarrow> None | a # _ \<Rightarrow> Some a))"

definition detectInternalArbitrage :: "string \<Rightarrow> OrderBook \<Rightarrow> int \<Rightarrow> ArbitrageOpportunity option" where
  "detectInternalArbitrage mid orderBook now =
     (case getBestAsk orderBook YES of
        None \<Rightarrow> None
      | Some yesBestAsk \<Rightarrow>
          (case getBestAsk orderBook NO of
             None \<Rightarrow> None
           | Some noBestAsk \<Rightarrow>
               let yesPrice = ask_price yesBestAsk;
                   noPrice = ask_price noBestAsk;
                   totalCost = yesPrice + noPrice;
                   feeAdjustedCost = totalCost * (101 / 100)
               in if feeAdjustedCost < 99 / 100
                  then let profitPct = js_div (1 - feeAdjustedCost) feeAdjustedCost;
                           liquidityYes = (case ask_size yesBestAsk of None \<Rightarrow> 0 | Some sz \<Rightarrow> sz)
                                            * yesPrice;
                           liquidityNo = (case ask_size noBestAsk of None \<Rightarrow> 0 | Some sz \<Rightarrow> sz)
                                            * noPrice;
                           profitUsd = profitPct
                       in Some \<lparr>opp_marketId = mid,
                                opp_marketQuestion =
                                  (case ob_question orderBook of
                                     None \<Rightarrow> mid
                                   | Some q \<Rightarrow> if q = [] then mid else q),
                                opp_opportunityType = Internal,
                                opp_yesPrice = yesPrice, opp_noPrice = noPrice,
                                opp_totalCost = totalCost,
                                opp_profitPct = profitPct, opp_profitUsd = profitUsd,
                                opp_liquidityYes = liquidityYes, opp_liquidityNo = liquidityNo,
                                opp_timestamp = now\<rparr>
                  else None))"

text \<open>\<open>detectCrossPlatformArbitrage\<close> is a stub that resolves to null.\<close>

definition detectCrossPlatformArbitrage :: "string \<Rightarrow> OrderBook \<Rightarrow> ArbitrageOpportunity option" where
  "detectCrossPlatformArbitrage mid orderBook = None"

definition isValid :: "ArbitrageConfig \<Rightarrow> ArbitrageOpportunity \<Rightarrow> bool" where
  "isValid cfg opp =
     (if js_less (opp_profitPct opp) (minArbProfitPct cfg) then False
      else if js_greater (opp_profitPct opp) (maxArbProfitPct cfg) then False
      else if opp_liquidityYes opp < minLiquidityUsd cfg then False
      else if opp_liquidityNo opp < minLiquidityUsd cfg then False
      else True)"

definition scanMarket :: "ArbitrageConfig \<Rightarrow> BookFetch \<Rightarrow> string \<Rightarrow> int \<Rightarrow> ArbitrageOpportunity option" where
  "scanMarket cfg fetch mid now =
     (case fetch of
        BookThrows \<Rightarrow> None
      | BookNull \<Rightarrow> None
      | Book orderBook \<Rightarrow>
          (case (if internalArbEnabled cfg
                 then (case detectInternalArbitrage mid orderBook now of
                         None \<Rightarrow> None
                       | Some opp \<Rightarrow> if isValid cfg opp then Some opp else None)
                 else None) of
             Some opp \<Rightarrow> Some opp
           | None \<Rightarrow>
               if crossPlatformEnabled cfg
               then (case detectCrossPlatformArbitrage mid orderBook of
                       None \<Rightarrow> None
                     | Some opp \<Rightarrow> if isValid cfg opp then Some opp else None)
               else None))"

text \<open>
  \<open>scanMarkets\<close>: the scans of one batch do not touch the detector, so running them
  concurrently is running them in order. Each market id comes with what the venue
  answers to its \<open>getOrderBook\<close>. The method returns the opportunities found and stores
  each of them under its market id; a scan that found nothing stores nothing.
\<close>

definition scanMarkets ::
  "ArbitrageDetector \<Rightarrow> (string \<times> BookFetch) list \<Rightarrow> int
     \<Rightarrow> ArbitrageOpportunity list \<times> ArbitrageDetector" where
  "scanMarkets det scans now =
     (let results = map (\<lambda>(mid, fetch). scanMarket (ad_config det) fetch mid now) scans;
          opportunities = concat (map (\<lambda>r. case r of None \<Rightarrow> [] | Some opp \<Rightarrow> [opp]) results)
      in (opportunities,
          det\<lparr>ad_activeOpportunities :=
                 foldl (\<lambda>m opp. AList.update (opp_marketId opp) opp m)
                       (ad_activeOpportunities det) opportunities\<rparr>))"

definition getOpportunity :: "ArbitrageDetector \<Rightarrow> string \<Rightarrow> ArbitrageOpportunity option" where
  "getOpportunity det mid = map_of (ad_activeOpportunities det) mid"

definition hasOpportunity :: "ArbitrageDetector \<Rightarrow> string \<Rightarrow> bool" where
  "hasOpportunity det mid =
     (case map_of (ad_activeOpportunities det) mid of
        None \<Rightarrow> False
      | Some opp \<Rightarrow> isValid (ad_config det) opp)"

section \<open>Order executor (\<open>order-executor.ts\<close>)\<close>

datatype OrderStatus = Pending | Cancelled

record Order =
  ord_orderId :: string
  ord_marketId :: string
  ord_outcome :: Outcome
  ord_side :: Side
  ord_price :: real
  ord_size :: jsnum
  ord_status :: OrderStatus

text \<open>
  The venue client (\<open>PolymarketClient\<close>) is outside the core. Its two order calls are
  modelled by what they can do: \<open>placeOrder\<close> throws, resolves to null, or resolves to an
  object with the optional fields \<open>id\<close> and \<open>orderId\<close>; \<open>cancelOrder\<close> throws or resolves to
  a boolean. A \<open>Venue\<close> gives the answer to a call from the log of all calls made so far,
  the call being answered last, so the same request may be answered differently at
  different times. The executor carries that log next to its map of tracked orders.
\<close>

datatype VenueCall =
  PlaceOrderCall string Outcome Side real jsnum
| CancelOrderCall string

datatype PlaceAnswer = PlaceThrows | PlaceNull | PlaceResult "string option" "string option"

datatype CancelAnswer = CancelThrows | CancelReturns bool

record Venue =
  onPlaceOrder :: "VenueCall list \<Rightarrow> PlaceAnswer"
  onCancelOrder :: "VenueCall list \<Rightarrow> CancelAnswer"

record OrderExecutor =
  oe_activeOrders :: "(string \<times> Order) list"
  oe_venueLog :: "VenueCall list"

definition new_OrderExecutor :: OrderExecutor where
  "new_OrderExecutor = \<lparr>oe_activeOrders = [], oe_venueLog = []\<rparr>"

text \<open>\<open>a || b\<close> on optional strings: a missing or empty string is falsy.\<close>

definition truthy :: "string option \<Rightarrow> bool" where
  "truthy s = (case s of None \<Rightarrow> False | Some x \<Rightarrow> x \<noteq> [])"

definition placeOrder ::
  "Venue \<Rightarrow> OrderExecutor \<Rightarrow> string \<Rightarrow> Outcome \<Rightarrow> Side \<Rightarrow> real \<Rightarrow> jsnum
     \<Rightarrow> Order option \<times> OrderExecutor" where
  "placeOrder venue oe mid outc sd price sz =
     (let calls = oe_venueLog oe @ [PlaceOrderCall mid outc sd price sz];
          oe1 = oe\<lparr>oe_venueLog := calls\<rparr>
      in case onPlaceOrder venue calls of
           PlaceThrows \<Rightarrow> (None, oe1)
         | PlaceNull \<Rightarrow> (None, oe1)
         | PlaceResult rid rorderId \<Rightarrow>
             (case (if truthy rid then rid else rorderId) of
                None \<Rightarrow> (None, oe1)
              | Some orderId \<Rightarrow>
                  if orderId \<noteq> []
                  then let order = \<lparr>ord_orderId = orderId, ord_marketId = mid,
                                     ord_outcome = outc, ord_side = sd, ord_price = price,
                                     ord_size = sz, ord_status = Pending\<rparr>
                       in (Some order,
                           oe1\<lparr>oe_activeOrders :=
                                  AList.update orderId order (oe_activeOrders oe1)\<rparr>)
                  else (None, oe1)))"

definition cancelOrder :: "Venue \<Rightarrow> OrderExecutor \<Rightarrow> string \<Rightarrow> bool \<times> OrderExecutor" where
  "cancelOrder venue oe orderId =
     (case map_of (oe_activeOrders oe) orderId of
        None \<Rightarrow> (False, oe)
      | Some order \<Rightarrow>
          (let calls = oe_venueLog oe @ [CancelOrderCall orderId];
               oe1 = oe\<lparr>oe_venueLog := calls\<rparr>
           in case onCancelOrder venue calls of
                CancelThrows \<Rightarrow> (False, oe1)
              | CancelReturns success \<Rightarrow>
                  if success
                  then (True,
                        oe1\<lparr>oe_activeOrders :=
                               AList.update orderId (order\<lparr>ord_status := Cancelled\<rparr>)
                                 (oe_activeOrders oe1)\<rparr>)
                  else (False, oe1)))"

section \<open>Copy trader (\<open>copy-trader.ts\<close>)\<close>

record WalletConfig =
  wc_address :: string
  wc_name :: string
  wc_enabled :: bool
  wc_minWinRate :: real
  wc_maxPositionSizeUsd :: real
  wc_positionSizeMultiplier :: real
  wc_marketsFilter :: "string list option"
  wc_requireArbSignal :: bool

text \<open>A \<open>Date\<close> built from a venue's string can be invalid; its \<open>getTime()\<close> is then NaN.\<close>

datatype Date = Date int | InvalidDate

record WalletTrade =
  wt_walletAddress :: string
  wt_walletName :: string
  wt_marketId :: string
  wt_marketQuestion :: string
  wt_outcome :: Outcome
  wt_side :: Side
  wt_price :: real
  wt_size :: real
  wt_sizeUsd :: real
  wt_timestamp :: Date
  wt_txHash :: "string option"

text \<open>
  A copy trader holds references to the detector, the risk manager and the executor; the
  model keeps their states in the trader's record, and a method returns its result with
  the record after the call.
\<close>

record CopyTrader =
  ct_arbDetector :: ArbitrageDetector
  ct_riskManager :: RiskManager
  ct_orderExecutor :: OrderExecutor
  ct_config :: WalletConfig
  ct_copiedTrades :: "(string \<times> int) list"

definition new_CopyTrader ::
  "ArbitrageDetector \<Rightarrow> RiskManager \<Rightarrow> OrderExecutor \<Rightarrow> WalletConfig \<Rightarrow> CopyTrader" where
  "new_CopyTrader det rm oe cfg =
     \<lparr>ct_arbDetector = det, ct_riskManager = rm, ct_orderExecutor = oe, ct_config = cfg,
      ct_copiedTrades = []\<rparr>"

text \<open>The strings a template literal prints for an outcome, a side and an optional hash.\<close>

fun outcomeString :: "Outcome \<Rightarrow> string" where
  "outcomeString YES = ''YES''"
| "outcomeString NO = ''NO''"

fun sideString :: "Side \<Rightarrow> string" where
  "sideString Buy = ''buy''"
| "sideString Sell = ''sell''"

definition tradeKey :: "WalletTrade \<Rightarrow> string" where
  "tradeKey trade =
     (case wt_txHash trade of None \<Rightarrow> ''undefined'' | Some h \<Rightarrow> h) @ ''_'' @ wt_marketId trade
       @ ''_'' @ outcomeString (wt_outcome trade) @ ''_'' @ sideString (wt_side trade)"

definition shouldCopyWallet :: "WalletConfig \<Rightarrow> WalletTrade \<Rightarrow> bool" where
  "shouldCopyWallet cfg trade = wc_enabled cfg"

definition calculatePositionSize :: "WalletConfig \<Rightarrow> WalletTrade \<Rightarrow> real" where
  "calculatePositionSize cfg trade =
     (let baseSize = wt_sizeUsd trade;
          scaledSize = baseSize * wc_positionSizeMultiplier cfg;
          finalSize = min scaledSize (wc_maxPositionSizeUsd cfg)
      in if finalSize < 10 then 0 else finalSize)"

text \<open>
  \<open>executeArbitrageTrade\<close>: both orders are placed before either result is looked at.
  (The two \<open>recordPosition\<close> calls read the clock one after the other; the model gives
  both the same reading.)
\<close>

definition executeArbitrageTrade ::
  "Venue \<Rightarrow> CopyTrader \<Rightarrow> ArbitrageOpportunity \<Rightarrow> real \<Rightarrow> int \<Rightarrow> bool \<times> CopyTrader" where
  "executeArbitrageTrade venue ct arbOpp positionSizeUsd now =
     (let yesSizeUsd = positionSizeUsd * (1 / 2);
          noSizeUsd = positionSizeUsd * (1 / 2);
          yesShares = js_div yesSizeUsd (opp_yesPrice arbOpp);
          noShares = js_div noSizeUsd (opp_noPrice arbOpp);
          (yesOrder, oe1) = placeOrder venue (ct_orderExecutor ct) (opp_marketId arbOpp) YES Buy
                              (opp_yesPrice arbOpp) yesShares;
          (noOrder, oe2) = placeOrder venue oe1 (opp_marketId arbOpp) NO Buy
                             (opp_noPrice arbOpp) noShares
      in if yesOrder \<noteq> None \<and> noOrder \<noteq> None
         then let rm1 = recordPosition (ct_riskManager ct) (opp_marketId arbOpp) yesSizeUsd
                          YES Buy None now;
                  rm2 = recordPosition rm1 (opp_marketId arbOpp) noSizeUsd NO Buy None now
              in (True, ct\<lparr>ct_orderExecutor := oe2, ct_riskManager := rm2\<rparr>)
         else let oe3 = (case yesOrder of
                           None \<Rightarrow> oe2
                         | Some y \<Rightarrow> snd (cancelOrder venue oe2 (ord_orderId y)));
                  oe4 = (case noOrder of
                           None \<Rightarrow> oe3
                         | Some n \<Rightarrow> snd (cancelOrder venue oe3 (ord_orderId n)))
              in (False, ct\<lparr>ct_orderExecutor := oe4\<rparr>))"

definition executeCopyTrade ::
  "Venue \<Rightarrow> CopyTrader \<Rightarrow> WalletTrade \<Rightarrow> real \<Rightarrow> int \<Rightarrow> bool \<times> CopyTrader" where
  "executeCopyTrade venue ct trade positionSizeUsd now =
     (let shares = js_div positionSizeUsd (wt_price trade);
          arbOpp = (if wc_requireArbSignal (ct_config ct)
                    then getOpportunity (ct_arbDetector ct) (wt_marketId trade) else None)
      in case (case arbOpp of
                 None \<Rightarrow> None
               | Some opp \<Rightarrow> if opp_opportunityType opp = Internal then Some opp else None) of
           Some opp \<Rightarrow> executeArbitrageTrade venue ct opp positionSizeUsd now
         | None \<Rightarrow>
             (let (orderResult, oe1) = placeOrder venue (ct_orderExecutor ct) (wt_marketId trade)
                                         (wt_outcome trade) (wt_side trade) (wt_price trade) shares
              in case orderResult of
                   Some order \<Rightarrow>
                     (True, ct\<lparr>ct_orderExecutor := oe1,
                               ct_riskManager :=
                                 recordPosition (ct_riskManager ct) (wt_marketId trade)
                                   positionSizeUsd (wt_outcome trade) (wt_side trade) None now\<rparr>)
                 | None \<Rightarrow> (False, ct\<lparr>ct_orderExecutor := oe1\<rparr>)))"

definition processTrade :: "Venue \<Rightarrow> CopyTrader \<Rightarrow> WalletTrade \<Rightarrow> int \<Rightarrow> bool \<times> CopyTrader" where
  "processTrade venue ct trade now =
     (let tradeKey = tradeKey trade in
      if map_of (ct_copiedTrades ct) tradeKey \<noteq> None then (False, ct)
      else if \<not> shouldCopyWallet (ct_config ct) trade then (False, ct)
      else if (case wc_marketsFilter (ct_config ct) of
                 None \<Rightarrow> False
               | Some markets \<Rightarrow> wt_marketId trade \<notin> set markets) then (False, ct)
      else if wc_requireArbSignal (ct_config ct)
              \<and> \<not> hasOpportunity (ct_arbDetector ct) (wt_marketId trade) then (False, ct)
      else let positionSizeUsd = calculatePositionSize (ct_config ct) trade in
        if positionSizeUsd \<le> 0 then (False, ct)
        else if \<not> canOpenPosition (ct_riskManager ct) (wt_marketId trade) positionSizeUsd
        then (False, ct)
        else let (success, ct1) = executeCopyTrade venue ct trade positionSizeUsd now in
          if success
          then (True, ct1\<lparr>ct_copiedTrades := AList.update tradeKey now (ct_copiedTrades ct1)\<rparr>)
          else (False, ct1))"

text \<open>
  The directional path of \<open>executeCopyTrade\<close> is taken when the branch into
  \<open>executeArbitrageTrade\<close> is not: the wallet does not require an arbitrage signal, or the
  detector holds no opportunity of type \<open>internal\<close> for the market.
\<close>

definition directionalPath :: "CopyTrader \<Rightarrow> WalletTrade \<Rightarrow> bool" where
  "directionalPath ct trade \<longleftrightarrow>
     \<not> (wc_requireArbSignal (ct_config ct)
        \<and> (case getOpportunity (ct_arbDetector ct) (wt_marketId trade) of
             None \<Rightarrow> False
           | Some opp \<Rightarrow> opp_opportunityType opp = Internal))"

text \<open>
  What can happen to a copy trader after a given moment: it processes further trades, and
  the components it shares with the other loops and traders change under it. Its map of
  copied trades is private.
\<close>

inductive laterTrader :: "CopyTrader \<Rightarrow> CopyTrader \<Rightarrow> bool" where
  later_same: "laterTrader ct ct"
| later_processTrade:
    "laterTrader ct ct1 \<Longrightarrow> laterTrader ct (snd (processTrade venue ct1 trade now))"
| later_shared:
    "laterTrader ct ct1 \<Longrightarrow>
     laterTrader ct (ct1\<lparr>ct_arbDetector := det, ct_riskManager := rm, ct_orderExecutor := oe\<rparr>)"

section \<open>Wallet monitor (\<open>wallet-monitor.ts\<close>)\<close>

text \<open>
  One element of the array \<open>getWalletTrades\<close> resolves to is an untyped object. The model
  keeps what \<open>checkWallet\<close> and \<open>parseTrade\<close> read from it, after the field fallbacks and
  conversions of \<open>parseTrade\<close>: \<open>positionId\<close>; \<open>market?.id || marketId\<close>; the question; the
  outcome and the side when, upper-cased and lower-cased, they are one of the two
  admitted strings; the parsed price and size; the \<open>Date\<close> built from \<open>timestamp ||
  createdAt\<close> when there is one; and \<open>txHash || transactionHash\<close>.
\<close>

record TradeData =
  td_positionId :: "string option"
  td_marketId :: "string option"
  td_question :: string
  td_outcome :: "Outcome option"
  td_side :: "Side option"
  td_price :: real
  td_size :: real
  td_timestamp :: "Date option"
  td_txHash :: "string option"

text \<open>What one call of \<open>pmClient.getWalletTrades\<close> does: throw, or resolve to an array.\<close>

datatype TradesFetch = TradesThrow | Trades "TradeData list"

text \<open>
  The monitor. \<open>wm_hasCallback\<close> says whether a \<open>tradeCallback\<close> was given. Two logs are
  added to the fields of the class: \<open>wm_emitted\<close>, the trades announced as new (the
  \<open>New trade from\<close> log lines), and \<open>wm_callbacks\<close>, the trades handed to the callback.
  A \<open>Set<string>\<close> of position ids is a list without duplicates.
\<close>

record WalletMonitor =
  wm_walletConfigs :: "(string \<times> WalletConfig) list"
  wm_hasCallback :: bool
  wm_lastTradeTimestamps :: "(string \<times> Date) list"
  wm_tradeHistory :: "(string \<times> WalletTrade list) list"
  wm_lastKnownPositions :: "(string \<times> string list) list"
  wm_checkCount :: "(string \<times> nat) list"
  wm_emitted :: "WalletTrade list"
  wm_callbacks :: "WalletTrade list"

definition new_WalletMonitor :: "WalletConfig list \<Rightarrow> bool \<Rightarrow> WalletMonitor" where
  "new_WalletMonitor walletConfigs hasCallback =
     (let configs = foldl (\<lambda>m wc. AList.update (wc_address wc) wc m) []
                      (filter wc_enabled walletConfigs)
      in \<lparr>wm_walletConfigs = configs, wm_hasCallback = hasCallback,
          wm_lastTradeTimestamps = [],
          wm_tradeHistory = map (\<lambda>(address, wc). (address, [])) configs,
          wm_lastKnownPositions = [], wm_checkCount = [], wm_emitted = [],
          wm_callbacks = []\<rparr>)"

definition parseTrade :: "TradeData \<Rightarrow> WalletConfig \<Rightarrow> int \<Rightarrow> WalletTrade option" where
  "parseTrade tradeData config now =
     (case (td_marketId tradeData, td_outcome tradeData, td_side tradeData) of
        (Some marketId, Some outc, Some sd) \<Rightarrow>
          if marketId = [] \<or> td_price tradeData \<le> 0 then None
          else Some \<lparr>wt_walletAddress = wc_address config, wt_walletName = wc_name config,
                     wt_marketId = marketId, wt_marketQuestion = td_question tradeData,
                     wt_outcome = outc, wt_side = sd, wt_price = td_price tradeData,
                     wt_size = td_size tradeData,
                     wt_sizeUsd = td_size tradeData * td_price tradeData,
                     wt_timestamp = (case td_timestamp tradeData of
                                       None \<Rightarrow> Date now
                                     | Some d \<Rightarrow> d),
                     wt_txHash = td_txHash tradeData\<rparr>
      | _ \<Rightarrow> None)"

fun getTime :: "Date \<Rightarrow> int option" where
  "getTime (Date t) = Some t"
| "getTime InvalidDate = None"

text \<open>
  The loop of \<open>isNewTrade\<close> over the wallet's history. A difference of time stamps that
  involves an invalid date is NaN, and \<open>NaN < 5000\<close> is false.
\<close>

fun isNewTrade_loop :: "WalletTrade list \<Rightarrow> WalletTrade \<Rightarrow> bool" where
  "isNewTrade_loop [] trade = True"
| "isNewTrade_loop (existingTrade # rest) trade =
     (if truthy (wt_txHash trade) \<and> wt_txHash existingTrade = wt_txHash trade then False
      else if wt_marketId existingTrade = wt_marketId trade
              \<and> wt_outcome existingTrade = wt_outcome trade
              \<and> wt_side existingTrade = wt_side trade
              \<and> (case (getTime (wt_timestamp existingTrade), getTime (wt_timestamp trade)) of
                    (Some a, Some b) \<Rightarrow> \<bar>a - b\<bar> < 5000
                  | _ \<Rightarrow> False)
           then False
           else isNewTrade_loop rest trade)"

definition historyOf :: "WalletMonitor \<Rightarrow> string \<Rightarrow> WalletTrade list" where
  "historyOf wm address = (case map_of (wm_tradeHistory wm) address of None \<Rightarrow> [] | Some h \<Rightarrow> h)"

definition isNewTrade :: "WalletMonitor \<Rightarrow> WalletTrade \<Rightarrow> bool" where
  "isNewTrade wm trade = isNewTrade_loop (historyOf wm (wt_walletAddress trade)) trade"

text \<open>
  The body of the loop of \<open>checkWallet\<close> for one element of the fetched array, in the
  three parts it is written in. First the position id: a known id ends the iteration
  (\<open>continue\<close>, here \<open>None\<close>), a new one is remembered. Then \<open>isNewTrade\<close>. Then, for a new
  trade, the emission: the history, the last time stamp, and the callback, whose
  exception is caught and changes nothing in the monitor.
\<close>

definition checkWallet_position :: "WalletMonitor \<Rightarrow> string \<Rightarrow> TradeData \<Rightarrow> WalletMonitor option" where
  "checkWallet_position wm walletAddress tradeData =
     (case td_positionId tradeData of
        None \<Rightarrow> Some wm
      | Some positionId \<Rightarrow>
          if positionId = [] then Some wm
          else let knownPositions = (case map_of (wm_lastKnownPositions wm) walletAddress of
                                       None \<Rightarrow> []
                                     | Some known \<Rightarrow> known)
               in if positionId \<in> set knownPositions then None
                  else Some (wm\<lparr>wm_lastKnownPositions :=
                                  AList.update walletAddress (knownPositions @ [positionId])
                                    (wm_lastKnownPositions wm)\<rparr>))"

definition checkWallet_emit :: "WalletMonitor \<Rightarrow> string \<Rightarrow> WalletTrade \<Rightarrow> WalletMonitor" where
  "checkWallet_emit wm walletAddress trade =
     wm\<lparr>wm_tradeHistory :=
          AList.update walletAddress (historyOf wm walletAddress @ [trade]) (wm_tradeHistory wm),
        wm_lastTradeTimestamps :=
          AList.update walletAddress (wt_timestamp trade) (wm_lastTradeTimestamps wm),
        wm_emitted := wm_emitted wm @ [trade],
        wm_callbacks := (if wm_hasCallback wm then wm_callbacks wm @ [trade]
                         else wm_callbacks wm)\<rparr>"

definition checkWallet_trade ::
  "WalletMonitor \<Rightarrow> string \<Rightarrow> WalletConfig \<Rightarrow> TradeData \<Rightarrow> int \<Rightarrow> WalletMonitor" where
  "checkWallet_trade wm walletAddress config tradeData now =
     (case parseTrade tradeData config now of
        None \<Rightarrow> wm
      | Some trade \<Rightarrow>
          (case checkWallet_position wm walletAddress tradeData of
             None \<Rightarrow> wm
           | Some wm1 \<Rightarrow>
               if isNewTrade wm1 trade then checkWallet_emit wm1 walletAddress trade
               else wm1))"

text \<open>
  \<open>checkWallet\<close>. A throw of \<open>getWalletTrades\<close> is caught before anything is changed.
  Every 60th check logs a status line that evaluates \<open>since.toISOString()\<close> when the
  wallet has a last time stamp; on an invalid date that call throws, the \<open>catch\<close> ends the
  poll, and only the check count has changed.
\<close>

definition checkWallet :: "WalletMonitor \<Rightarrow> string \<Rightarrow> TradesFetch \<Rightarrow> int \<Rightarrow> WalletMonitor" where
  "checkWallet wm walletAddress fetch now =
     (case map_of (wm_walletConfigs wm) walletAddress of
        None \<Rightarrow> wm
      | Some config \<Rightarrow>
          (let since = map_of (wm_lastTradeTimestamps wm) walletAddress in
           case fetch of
             TradesThrow \<Rightarrow> wm
           | Trades trades \<Rightarrow>
               let checkCount = (case map_of (wm_checkCount wm) walletAddress of
                                   None \<Rightarrow> 0
                                 | Some c \<Rightarrow> c) + 1;
                   wm1 = wm\<lparr>wm_checkCount :=
                               AList.update walletAddress checkCount (wm_checkCount wm)\<rparr>
               in if checkCount mod 60 = 0 \<and> since = Some InvalidDate then wm1
                  else foldl (\<lambda>w tradeData. checkWallet_trade w walletAddress config tradeData now)
                         wm1 trades))"

text \<open>
  The monitors that exist: the one the constructor builds, and each monitor after a
  further \<open>checkWallet\<close>. A state in the middle of a batch that is being handled is the
  state after \<open>checkWallet\<close> on the part of the batch handled so far.
\<close>

inductive reachableMonitor :: "WalletMonitor \<Rightarrow> bool" where
  reachable_new: "reachableMonitor (new_WalletMonitor walletConfigs hasCallback)"
| reachable_checkWallet:
    "reachableMonitor wm \<Longrightarrow> reachableMonitor (checkWallet wm walletAddress fetch now)"

text \<open>
  The invariant of the monitor: a configuration is stored under its own address, and a
  trade announced as new is in the history of its wallet.
\<close>

definition monitor_inv :: "WalletMonitor \<Rightarrow> bool" where
  "monitor_inv wm \<longleftrightarrow>
     (\<forall>address config. map_of (wm_walletConfigs wm) address = Some config
                          \<longrightarrow> wc_address config = address)
   \<and> (\<forall>e \<in> set (wm_emitted wm). e \<in> set (historyOf wm (wt_walletAddress e)))"

section \<open>Example values\<close>

text \<open>
  The risk ceilings of \<open>example.ts\<close> and \<open>loadConfig\<close>, and a ledger with one open
  position of 500 USD in market \<open>m1\<close>, for evaluating the theorems below.
\<close>

definition example_risk :: RiskConfig where
  "example_risk = \<lparr>maxTotalExposureUsd = 10000, maxPositionPerMarketUsd = 2000,
                    maxDailyLossUsd = 500, enableAutoHedge = True, minBalanceUsd = 100\<rparr>"


definition example_calls :: "LedgerCall list" where
  "example_calls =
     [RecordPosition ''m1'' 100 YES Buy None 1, RecordPosition ''m2'' 50 NO Buy (Some (2 / 5)) 2,
      RecordPosition ''m1'' 30 YES Sell None 3, ClosePosition ''m1'' YES (Some (3 / 5)),
      ClosePosition ''m3'' NO None]"

text \<open>
  A ledger created on 2024-01-15 12:00 UTC that realised a loss of 50 USD the same day.
\<close>

definition month_old_ledger :: RiskManager where
  "month_old_ledger =
     ledgerCalls (new_RiskManager example_risk 1705320000000)
       [RecordPosition ''m1'' 100 YES Buy (Some (1 / 2)) 1705320000000,
        ClosePosition ''m1'' YES (Some (1 / 4))]"

text \<open>
  The wallet and the arbitrage thresholds of \<open>example.ts\<close>, a trade of 50000 USD observed
  for that wallet, a venue that accepts every order and every cancel, and one that
  accepts orders for YES only and refuses to cancel.
\<close>

definition example_wallet :: WalletConfig where
  "example_wallet =
     \<lparr>wc_address = ''0x1234'', wc_name = ''gabagool22'', wc_enabled = True,
      wc_minWinRate = 7 / 10, wc_maxPositionSizeUsd = 2000,
      wc_positionSizeMultiplier = 1 / 100, wc_marketsFilter = None,
      wc_requireArbSignal = True\<rparr>"

definition example_arb :: ArbitrageConfig where
  "example_arb =
     \<lparr>minArbProfitPct = 1 / 100, maxArbProfitPct = 5 / 100, internalArbEnabled = True,
      crossPlatformEnabled = False, minLiquidityUsd = 1000, maxSlippagePct = 2 / 100\<rparr>"

definition example_book :: OrderBook where
  "example_book =
     \<lparr>ob_asks = (\<lambda>outc. case outc of
                     YES \<Rightarrow> [\<lparr>ask_price = 50 / 100, ask_size = Some 100\<rparr>,
                              \<lparr>ask_price = 48 / 100, ask_size = Some 5000\<rparr>]
                   | NO \<Rightarrow> [\<lparr>ask_price = 49 / 100, ask_size = Some 4000\<rparr>]),
      ob_question = Some ''Will BTC hit 50k by Friday?''\<rparr>"

definition example_opportunity :: ArbitrageOpportunity where
  "example_opportunity =
     \<lparr>opp_marketId = ''m1'', opp_marketQuestion = ''Will BTC hit 50k by Friday?'',
      opp_opportunityType = Internal, opp_yesPrice = 48 / 100, opp_noPrice = 49 / 100,
      opp_totalCost = 97 / 100, opp_profitPct = Fin (203 / 9797),
      opp_profitUsd = Fin (203 / 9797), opp_liquidityYes = 2400, opp_liquidityNo = 1960,
      opp_timestamp = 1\<rparr>"

definition example_trade :: WalletTrade where
  "example_trade =
     \<lparr>wt_walletAddress = ''0x1234'', wt_walletName = ''gabagool22'', wt_marketId = ''m1'',
      wt_marketQuestion = ''Will BTC hit 50k by Friday?'', wt_outcome = YES, wt_side = Buy,
      wt_price = 1 / 2, wt_size = 100000, wt_sizeUsd = 50000, wt_timestamp = Date 1000,
      wt_txHash = None\<rparr>"

definition accepting_venue :: Venue where
  "accepting_venue =
     \<lparr>onPlaceOrder = (\<lambda>calls. PlaceResult (Some (replicate (length calls) CHR ''o'')) None),
      onCancelOrder = (\<lambda>calls. CancelReturns True)\<rparr>"

definition yes_only_venue :: Venue where
  "yes_only_venue =
     \<lparr>onPlaceOrder = (\<lambda>calls. case last calls of
                                 PlaceOrderCall mid outc sd price sz \<Rightarrow>
                                   if outc = YES then PlaceResult None (Some ''y1'') else PlaceNull
                               | CancelOrderCall orderId \<Rightarrow> PlaceNull),
      onCancelOrder = (\<lambda>calls. CancelReturns False)\<rparr>"

definition example_trader :: CopyTrader where
  "example_trader =
     new_CopyTrader \<lparr>ad_config = example_arb,
                      ad_activeOpportunities = [(''m1'', example_opportunity)]\<rparr>
       (new_RiskManager example_risk 0) new_OrderExecutor example_wallet"

definition directional_trader :: CopyTrader where
  "directional_trader =
     new_CopyTrader (new_ArbitrageDetector example_arb) (new_RiskManager example_risk 0)
       new_OrderExecutor (example_wallet\<lparr>wc_requireArbSignal := False\<rparr>)"

text \<open>
  A later order book of the same market in which the arbitrage is gone, and the detector
  after one scan of the first book.
\<close>

definition later_book :: OrderBook where
  "later_book =
     \<lparr>ob_asks = (\<lambda>outc. case outc of
                     YES \<Rightarrow> [\<lparr>ask_price = 52 / 100, ask_size = Some 5000\<rparr>]
                   | NO \<Rightarrow> [\<lparr>ask_price = 50 / 100, ask_size = Some 4000\<rparr>]),
      ob_question = Some ''Will BTC hit 50k by Friday?''\<rparr>"

definition scanned_detector :: ArbitrageDetector where
  "scanned_detector =
     snd (scanMarkets (new_ArbitrageDetector example_arb) [(''m1'', Book example_book)] 1)"

text \<open>
  Two fetched trades of the example wallet in market \<open>m1\<close>, 4999 ms apart, neither with
  a transaction id, and the monitor after a poll that returned the first.
\<close>

definition first_tradeData :: TradeData where
  "first_tradeData =
     \<lparr>td_positionId = None, td_marketId = Some ''m1'', td_question = ''Will BTC hit 50k?'',
      td_outcome = Some YES, td_side = Some Buy, td_price = 1 / 2, td_size = 1000,
      td_timestamp = Some (Date 1700000000000), td_txHash = None\<rparr>"

definition second_tradeData :: TradeData where
  "second_tradeData =
     first_tradeData\<lparr>td_price := 3 / 5, td_size := 70,
                     td_timestamp := Some (Date 1700000004999)\<rparr>"

definition polled_monitor :: WalletMonitor where
  "polled_monitor =
     checkWallet (new_WalletMonitor [example_wallet] True) ''0x1234''
       (Trades [first_tradeData]) 1700000000500"

text \<open>
  Three positions of 830.59, 882 and 287.41 USD opened in one market, sizes being the
  doubles of these decimal literals, and the first then closed.
\<close>

definition drift_calls :: "LedgerCall list" where
  "drift_calls =
     [RecordPosition ''m1'' (fl (83059 / 100)) YES Buy None 1,
      RecordPosition ''m1'' 882 YES Buy None 2,
      RecordPosition ''m1'' (fl (28741 / 100)) YES Buy None 3,
      ClosePosition ''m1'' YES None]"

section \<open>Admission control\<close>

lemma sumSizeUsd_foldl: "foldl (\<lambda>sum p. sum + pos_sizeUsd p) a ps = a + sum_list (map pos_sizeUsd ps)"
  by (induction ps arbitrary: a) simp_all

lemma sumSizeUsd_sum_list: "sumSizeUsd ps = sum_list (map pos_sizeUsd ps)"
  by (simp add: sumSizeUsd_def sumSizeUsd_foldl)



section \<open>The ledger invariant\<close>

lemma update_concat_length:
  "distinct (map fst al) \<Longrightarrow>
   length (concat (map snd (AList.update k v al)))
     + length (case map_of al k of None \<Rightarrow> [] | Some ps \<Rightarrow> ps)
   = length (concat (map snd al)) + length v"
  by (induction al) (auto simp: image_iff split: option.splits)

lemma find_filter: "List.find P xs = (case filter P xs of [] \<Rightarrow> None | x # _ \<Rightarrow> Some x)"
  by (induction xs) auto

lemma foldl_length_concat: "foldl (\<lambda>sum p. sum + length p) a pss = a + length (concat pss)"
  by (induction pss arbitrary: a) auto

lemma ledger_inv_new: "ledger_inv (new_RiskManager cfg now) []"
  by (simp add: ledger_inv_def new_RiskManager_def positionsOrEmpty_def)

lemma ledger_inv_record:
  assumes "ledger_inv rm opn"
  shows "ledger_inv (recordPosition rm mid sizeUsd outc sd entryPrice now)
           (openPositions_spec_step opn (RecordPosition mid sizeUsd outc sd entryPrice now))"
proof -
  let ?p = "\<lparr>pos_marketId = mid, pos_outcome = outc, pos_side = sd, pos_sizeUsd = sizeUsd,
             pos_entryPrice = (case entryPrice of None \<Rightarrow> 0 | Some e \<Rightarrow> e),
             pos_timestamp = now\<rparr>"
  let ?al = "rm_positions rm"
  let ?bl = "if map_of ?al mid = None then AList.update mid [] ?al else ?al"
  let ?ps = "case map_of ?bl mid of None \<Rightarrow> [] | Some ps \<Rightarrow> ps"
  from assms have d: "distinct (map fst ?al)"
    and look: "\<And>m. positionsOrEmpty rm m = filter (\<lambda>p. pos_marketId p = m) opn"
    and len: "length (concat (map snd ?al)) = length opn"
    and tot: "rm_totalExposure rm = sum_list (map pos_sizeUsd opn)"
    by (simp_all add: ledger_inv_def)
  have d0: "distinct (map fst ?bl)" using d by (simp add: distinct_update)
  have ps: "?ps = positionsOrEmpty rm mid"
    by (simp add: positionsOrEmpty_def update_conv' split: option.splits)
  have len0: "length (concat (map snd ?bl)) = length opn"
    using update_concat_length [OF d, of mid "[]"] len by (auto split: option.splits)
  have rp: "rm_positions (recordPosition rm mid sizeUsd outc sd entryPrice now)
              = AList.update mid (?ps @ [?p]) ?bl"
    by (simp add: recordPosition_def Let_def)
  have 1: "distinct (map fst (AList.update mid (?ps @ [?p]) ?bl))"
    using d0 by (simp only: distinct_update)
  have 2: "positionsOrEmpty (recordPosition rm mid sizeUsd outc sd entryPrice now) m
             = filter (\<lambda>p. pos_marketId p = m) (opn @ [?p])" for m
  proof (cases "m = mid")
    case True
    then show ?thesis using look [of mid] ps
      by (simp add: positionsOrEmpty_def rp update_conv')
  next
    case False
    then have "positionsOrEmpty (recordPosition rm mid sizeUsd outc sd entryPrice now) m
                 = positionsOrEmpty rm m"
      by (simp add: positionsOrEmpty_def rp update_conv')
    with False look [of m] show ?thesis by simp
  qed
  have 3: "length (concat (map snd (AList.update mid (?ps @ [?p]) ?bl))) = length (opn @ [?p])"
    using update_concat_length [OF d0, of mid "?ps @ [?p]"] len0 by simp
  have 4: "rm_totalExposure (recordPosition rm mid sizeUsd outc sd entryPrice now)
             = sum_list (map pos_sizeUsd (opn @ [?p]))"
    using tot by (simp add: recordPosition_def Let_def)
  show ?thesis
    unfolding ledger_inv_def using 1 2 3 4 by (simp add: rp)
qed

lemma ledger_inv_close:
  assumes "ledger_inv rm opn"
  shows "ledger_inv (snd (closePosition rm mid outc exitPrice))
           (openPositions_spec_step opn (ClosePosition mid outc exitPrice))"
proof -
  let ?Q = "\<lambda>p. pos_outcome p = outc \<and> pos_side p = Buy"
  let ?R = "\<lambda>p. pos_marketId p = mid \<and> pos_outcome p = outc \<and> pos_side p = Buy"
  let ?al = "rm_positions rm"
  from assms have d: "distinct (map fst ?al)"
    and look: "\<And>m. positionsOrEmpty rm m = filter (\<lambda>p. pos_marketId p = m) opn"
    and len: "length (concat (map snd ?al)) = length opn"
    and tot: "rm_totalExposure rm = sum_list (map pos_sizeUsd opn)"
    by (simp_all add: ledger_inv_def)
  have fQ: "filter ?Q (positionsOrEmpty rm mid) = filter ?R opn"
    by (simp add: look conj_commute conj_left_commute cong: conj_cong)
  show ?thesis
  proof (cases "filter ?R opn")
    case Nil
    then have "List.find ?R opn = None" by (simp add: find_filter)
    moreover have "closePosition rm mid outc exitPrice = (None, rm)"
      using Nil fQ by (auto simp: closePosition_def positionsOrEmpty_def Let_def split: option.splits)
    ultimately show ?thesis using assms by simp
  next
    case (Cons p rest)
    then have f: "List.find ?R opn = Some p" by (simp add: find_filter)
    have "p \<in> set (filter ?R opn)" by (simp add: Cons)
    then have pin: "p \<in> set opn" and pR: "?R p" by simp_all
    have "positionsOrEmpty rm mid \<noteq> []" using fQ Cons by auto
    then obtain ps where ps: "map_of ?al mid = Some ps" and psne: "ps \<noteq> []"
      and pse: "ps = positionsOrEmpty rm mid"
      by (cases "map_of ?al mid") (simp_all add: positionsOrEmpty_def)
    have fps: "filter ?Q ps = p # rest" using fQ Cons pse by simp
    obtain pnl where cl: "closePosition rm mid outc exitPrice =
       (Some pnl, rm\<lparr>rm_positions := AList.update mid (remove1 p ps) ?al,
                      rm_totalExposure := rm_totalExposure rm - pos_sizeUsd p,
                      rm_dailyPnl := rm_dailyPnl rm + pnl\<rparr>)"
      using ps psne fps by (simp add: closePosition_def Let_def)
    have pps: "p \<in> set ps" using pse look [of mid] pin pR by simp
    have 1: "distinct (map fst (AList.update mid (remove1 p ps) ?al))"
      using d by (simp only: distinct_update)
    have 2: "(case map_of (AList.update mid (remove1 p ps) ?al) m of None \<Rightarrow> [] | Some x \<Rightarrow> x)
               = filter (\<lambda>q. pos_marketId q = m) (remove1 p opn)" for m
    proof (cases "m = mid")
      case True
      then show ?thesis using pse look [of mid]
        by (simp add: update_conv' filter_remove1)
    next
      case False
      then have "p \<notin> set (filter (\<lambda>q. pos_marketId q = m) opn)" using pR by auto
      then have "filter (\<lambda>q. pos_marketId q = m) (remove1 p opn)
                   = filter (\<lambda>q. pos_marketId q = m) opn"
        by (simp add: filter_remove1 remove1_idem del: set_filter)
      with False look [of m] show ?thesis
        by (simp add: update_conv' positionsOrEmpty_def)
    qed
    have "length (concat (map snd (AList.update mid (remove1 p ps) ?al))) + length ps
            = length opn + length (remove1 p ps)"
      using update_concat_length [OF d, of mid "remove1 p ps"] ps len by simp
    moreover have "length ps = Suc (length (remove1 p ps))"
      using pps by (simp add: length_remove1) (metis Suc_pred length_pos_if_in_set)
    moreover have "length opn = Suc (length (remove1 p opn))"
      using pin by (simp add: length_remove1) (metis Suc_pred length_pos_if_in_set)
    ultimately have 3: "length (concat (map snd (AList.update mid (remove1 p ps) ?al)))
                          = length (remove1 p opn)" by simp
    have 4: "rm_totalExposure rm - pos_sizeUsd p = sum_list (map pos_sizeUsd (remove1 p opn))"
      using tot sum_list_map_remove1 [OF pin, of pos_sizeUsd] by simp
    show ?thesis
      unfolding ledger_inv_def using 1 2 3 4 by (simp add: cl f positionsOrEmpty_def)
  qed
qed

lemma ledger_inv_calls:
  "ledger_inv rm opn \<Longrightarrow> ledger_inv (foldl ledgerCall rm calls) (foldl openPositions_spec_step opn calls)"
proof (induction calls arbitrary: rm opn)
  case Nil
  then show ?case by simp
next
  case (Cons c calls)
  have "ledger_inv (ledgerCall rm c) (openPositions_spec_step opn c)"
    using Cons.prems by (cases c) (simp_all only: ledgerCall.simps ledger_inv_record ledger_inv_close)
  then show ?case using Cons.IH by simp
qed

lemma map_of_marketExposures:
  "map_of (map (\<lambda>(marketId, positions). (marketId, sumSizeUsd positions)) al) mid
     = map_option sumSizeUsd (map_of al mid)"
  by (induction al) auto

text \<open>
  In exact arithmetic the bookkeeping is consistent: after any finite sequence of
  \<open>recordPosition\<close> and \<open>closePosition\<close> calls on a fresh ledger, the snapshot of
  \<open>getExposure\<close> reports as total exposure the sum of \<open>sizeUsd\<close> over the currently open
  positions, as exposure of each market it lists the sum over that market's open
  positions (a market it does not list has none), and as \<open>openPositions\<close> their number.
  What remains of this in double precision is the subject of the next section.
\<close>

theorem exposure_snapshot_sums:
  fixes cfg :: RiskConfig and t0 now :: int and calls :: "LedgerCall list"
  defines "rm \<equiv> ledgerCalls (new_RiskManager cfg t0) calls"
      and "opn \<equiv> openPositions_spec calls"
  defines "m \<equiv> fst (getExposure rm now)"
  shows "totalExposureUsd m = sum_list (map pos_sizeUsd opn)
       \<and> (\<forall>mid. case map_of (marketExposures m) mid of
                   Some e \<Rightarrow> e = sum_list (map pos_sizeUsd (filter (\<lambda>p. pos_marketId p = mid) opn))
                 | None \<Rightarrow> filter (\<lambda>p. pos_marketId p = mid) opn = [])
       \<and> openPositions m = length opn"
proof -
  have inv: "ledger_inv rm opn"
    unfolding rm_def opn_def ledgerCalls_def openPositions_spec_def
    by (rule ledger_inv_calls [OF ledger_inv_new])
  have a: "totalExposureUsd m = sum_list (map pos_sizeUsd opn)"
    using inv by (simp add: m_def getExposure_def ledger_inv_def Let_def)
  have b: "openPositions m = length opn"
    using inv by (simp add: m_def getExposure_def ledger_inv_def Let_def foldl_length_concat)
  have c: "case map_of (marketExposures m) mid of
                   Some e \<Rightarrow> e = sum_list (map pos_sizeUsd (filter (\<lambda>p. pos_marketId p = mid) opn))
                 | None \<Rightarrow> filter (\<lambda>p. pos_marketId p = mid) opn = []" for mid
  proof -
    have me: "map_of (marketExposures m) mid = map_option sumSizeUsd (map_of (rm_positions rm) mid)"
      by (simp add: m_def getExposure_def Let_def map_of_marketExposures)
    have "positionsOrEmpty rm mid = filter (\<lambda>p. pos_marketId p = mid) opn"
      using inv by (simp add: ledger_inv_def)
    then show ?thesis unfolding me
      by (cases "map_of (rm_positions rm) mid") (simp_all add: positionsOrEmpty_def sumSizeUsd_sum_list)
  qed
  show ?thesis using a b c by blast
qed

theorem exposure_snapshot_sums_witness:
  "totalExposureUsd (fst (getExposure (ledgerCalls (new_RiskManager example_risk 0) example_calls) 5)) = 80
   \<and> map_of (marketExposures (fst (getExposure (ledgerCalls (new_RiskManager example_risk 0) example_calls) 5))) ''m1'' = Some 30
   \<and> map_of (marketExposures (fst (getExposure (ledgerCalls (new_RiskManager example_risk 0) example_calls) 5))) ''m3'' = None
   \<and> openPositions (fst (getExposure (ledgerCalls (new_RiskManager example_risk 0) example_calls) 5)) = 2"
  using exposure_snapshot_sums [of example_risk 0 example_calls 5]
  by (simp add: example_calls_def openPositions_spec_def ledgerCalls_def new_RiskManager_def
      recordPosition_def closePosition_def getExposure_def Let_def sumSizeUsd_def)

section \<open>Rounding of the running total\<close>

text \<open>
  The exponent search agrees with the logarithm: \<open>exponent x\<close> is the integer \<open>e\<close> with
  \<open>2\<^sup>e \<le> |x| < 2\<^sup>e\<^sup>+\<^sup>1\<close>.
\<close>

lemma pow2_powr: "pow2 e = 2 powr of_int e"
proof (cases "0 \<le> e")
  case True
  then have "(2::real) powr of_int e = 2 powr real (nat e)" by simp
  also have "\<dots> = 2 ^ nat e" by (simp only: powr_realpow zero_less_numeral)
  finally show ?thesis using True by (simp add: pow2_def)
next
  case False
  then have "(2::real) powr of_int e = 2 powr (- real (nat (- e)))" by simp
  also have "\<dots> = 1 / 2 powr real (nat (- e))" by (simp only: powr_minus_divide)
  also have "\<dots> = 1 / 2 ^ nat (- e)" by (simp only: powr_realpow zero_less_numeral)
  finally show ?thesis using False by (simp add: pow2_def)
qed

lemma pow2_Suc: "pow2 (e + 1) = 2 * pow2 e"
  unfolding pow2_powr by (simp add: powr_add)

lemma pow2_pos: "0 < pow2 e"
  unfolding pow2_powr by simp

lemma exponent_up_bounds:
  "1 \<le> x \<Longrightarrow> pow2 (exponent_up x) \<le> x \<and> x < pow2 (exponent_up x + 1)"
proof (induction x rule: exponent_up.induct)
  case (1 x)
  show ?case
  proof (cases "x < 2")
    case True
    then have "exponent_up x = 0" by (simp add: exponent_up.simps)
    then show ?thesis using True "1.prems" by (simp add: pow2_def)
  next
    case False
    then have e: "exponent_up x = exponent_up (x / 2) + 1"
      by (subst exponent_up.simps) simp
    have "pow2 (exponent_up (x / 2)) \<le> x / 2 \<and> x / 2 < pow2 (exponent_up (x / 2) + 1)"
      using "1.IH" False by simp
    then show ?thesis unfolding e pow2_Suc by simp
  qed
qed

lemma exponent_down_bounds:
  "0 < x \<Longrightarrow> x < 1 \<Longrightarrow> pow2 (exponent_down x) \<le> x \<and> x < pow2 (exponent_down x + 1)"
proof (induction x rule: exponent_down.induct)
  case (1 x)
  have e: "exponent_down x = exponent_down (x * 2) - 1"
    using "1.prems" by (subst exponent_down.simps) simp
  show ?case
  proof (cases "x * 2 < 1")
    case True
    have "pow2 (exponent_down (x * 2)) \<le> x * 2 \<and> x * 2 < pow2 (exponent_down (x * 2) + 1)"
      using "1.IH" "1.prems" True by simp
    moreover have "pow2 (exponent_down (x * 2)) = 2 * pow2 (exponent_down (x * 2) - 1)"
      using pow2_Suc [of "exponent_down (x * 2) - 1"] by simp
    ultimately show ?thesis unfolding e pow2_Suc by simp
  next
    case False
    then have "exponent_down (x * 2) = 0" by (simp add: exponent_down.simps)
    then show ?thesis using False "1.prems" unfolding e by (simp add: pow2_def)
  qed
qed

lemma exponent_bounds:
  assumes "x \<noteq> 0"
  shows "pow2 (exponent x) \<le> \<bar>x\<bar> \<and> \<bar>x\<bar> < pow2 (exponent x + 1)"
proof (cases "1 \<le> \<bar>x\<bar>")
  case True
  then show ?thesis using exponent_up_bounds [of "\<bar>x\<bar>"] by (simp add: exponent_def)
next
  case False
  then show ?thesis using exponent_down_bounds [of "\<bar>x\<bar>"] assms by (simp add: exponent_def)
qed

lemma exponent_floor_log:
  assumes "x \<noteq> 0"
  shows "exponent x = \<lfloor>log 2 \<bar>x\<bar>\<rfloor>"
proof -
  have "0 < \<bar>x\<bar>" using assms by simp
  then show ?thesis
    using floor_log_eq_powr_iff [of "\<bar>x\<bar>" 2 "exponent x"] exponent_bounds [OF assms]
    unfolding pow2_powr by simp
qed

lemma fl_eval:
  assumes "2 ^ k \<le> \<bar>x\<bar>" and "\<bar>x\<bar> < 2 ^ Suc k" and "k \<le> 52"
  shows "fl x = of_int (round_even (x * 2 ^ (52 - k))) / 2 ^ (52 - k)"
proof -
  have pos: "0 < \<bar>x\<bar>"
    using assms(1) by (smt (verit) zero_less_power)
  then have nz: "x \<noteq> 0" by simp
  have a: "(2::real) powr real_of_int (int k) = 2 ^ k"
    by (simp add: powr_realpow)
  have "(2::real) powr real_of_int (int k + 1) = 2 powr real (Suc k)"
    by (simp add: add.commute)
  then have b: "(2::real) powr real_of_int (int k + 1) = 2 ^ Suc k"
    by (simp only: powr_realpow zero_less_numeral)
  have "\<lfloor>log 2 \<bar>x\<bar>\<rfloor> = int k"
    using floor_log_eq_powr_iff [of "\<bar>x\<bar>" 2 "int k"] pos assms(1,2) unfolding a b by simp
  then have lg: "exponent x = int k"
    using exponent_floor_log [OF nz] by simp
  have e: "max (exponent x - 52) (- 1074) = - int (52 - k)"
    using assms(3) lg by simp
  have "nat (52 - int k) = 52 - k"
    by arith
  then have p: "pow2 (- int (52 - k)) = 1 / 2 ^ (52 - k)"
    by (simp add: pow2_def)
  show ?thesis
    using nz unfolding fl_def Let_def e p by simp
qed

lemma fl_literals:
  "fl (83059 / 100) = 7305946903315743 / 2 ^ 43"
  "fl (28741 / 100) = 5056170191025603 / 2 ^ 44"
  by (simp_all add: fl_eval [where k = 9] fl_eval [where k = 8] round_even_def Let_def)

lemma drift_total:
  "fl (fl (fl (fl (0 + fl (83059 / 100)) + 882) + fl (28741 / 100)) - fl (83059 / 100))
     = 5143119570550130 / 2 ^ 42"
proof -
  define a :: real where "a = 7305946903315743 / 2 ^ 43"
  define c :: real where "c = 5056170191025603 / 2 ^ 44"
  define t2 :: real where "t2 = 7532050474451600 / 2 ^ 42"
  define t3 :: real where "t3 = 8796093022208001 / 2 ^ 42"
  define t4 :: real where "t4 = 5143119570550130 / 2 ^ 42"
  have s1: "fl (0 + a) = a"
    unfolding a_def by (simp add: fl_eval [where k = 9] round_even_def Let_def)
  have s2: "fl (a + 882) = t2"
    unfolding a_def t2_def by (simp add: fl_eval [where k = 10] round_even_def Let_def)
  have s3: "fl (t2 + c) = t3"
    unfolding t2_def c_def t3_def by (simp add: fl_eval [where k = 10] round_even_def Let_def)
  have s4: "fl (t3 - a) = t4"
    unfolding t3_def a_def t4_def by (simp add: fl_eval [where k = 10] round_even_def Let_def)
  have "fl (fl (fl (fl (0 + a) + 882) + c) - a) = t4"
    by (simp only: s1 s2 s3 s4)
  then show ?thesis
    unfolding fl_literals a_def c_def t4_def .
qed

lemma drift_sum:
  "fl (fl (0 + 882) + fl (28741 / 100)) = 5143119570550129 / 2 ^ 42"
proof -
  define c :: real where "c = 5056170191025603 / 2 ^ 44"
  define s2 :: real where "s2 = 5143119570550129 / 2 ^ 42"
  have s1: "fl (0 + 882) = 882"
    by (simp add: fl_eval [where k = 9] round_even_def Let_def)
  have s2: "fl (882 + c) = s2"
    unfolding c_def s2_def by (simp add: fl_eval [where k = 10] round_even_def Let_def)
  have "fl (fl (0 + 882) + c) = s2"
    by (simp only: s1 s2)
  then show ?thesis
    unfolding fl_literals c_def s2_def .
qed

lemma three_then_close:
  "ledgerCalls_ieee (new_RiskManager cfg t0)
     [RecordPosition mid a YES Buy None 1, RecordPosition mid b YES Buy None 2,
      RecordPosition mid c YES Buy None 3, ClosePosition mid YES None]
   = \<lparr>rm_config = cfg,
      rm_positions = [(mid, [\<lparr>pos_marketId = mid, pos_outcome = YES, pos_side = Buy,
                               pos_sizeUsd = b, pos_entryPrice = 0, pos_timestamp = 2\<rparr>,
                             \<lparr>pos_marketId = mid, pos_outcome = YES, pos_side = Buy,
                               pos_sizeUsd = c, pos_entryPrice = 0, pos_timestamp = 3\<rparr>])],
      rm_totalExposure = fl (fl (fl (fl (0 + a) + b) + c) - a),
      rm_dailyPnl = fl (0 + 0), rm_lastResetDate = t0\<rparr>"
  by (simp add: ledgerCalls_ieee_def new_RiskManager_def recordPosition_ieee_def
      closePosition_ieee_def Let_def)

lemma three_then_close_spec:
  "openPositions_spec
     [RecordPosition mid a YES Buy None 1, RecordPosition mid b YES Buy None 2,
      RecordPosition mid c YES Buy None 3, ClosePosition mid YES None]
   = [\<lparr>pos_marketId = mid, pos_outcome = YES, pos_side = Buy,
        pos_sizeUsd = b, pos_entryPrice = 0, pos_timestamp = 2\<rparr>,
      \<lparr>pos_marketId = mid, pos_outcome = YES, pos_side = Buy,
        pos_sizeUsd = c, pos_entryPrice = 0, pos_timestamp = 3\<rparr>]"
  by (simp add: openPositions_spec_def)

lemma ledgerCall_ieee_positions:
  assumes "rm_positions rmi = rm_positions rme"
  shows "rm_positions (ledgerCall_ieee rmi c) = rm_positions (ledgerCall rme c)"
proof (cases c)
  case (RecordPosition mid sizeUsd outc sd entryPrice now)
  then show ?thesis
    using assms by (simp add: recordPosition_ieee_def recordPosition_def Let_def)
next
  case (ClosePosition mid outc exitPrice)
  then show ?thesis
    using assms
    by (simp add: closePosition_ieee_def closePosition_def Let_def
        split: option.splits list.splits)
qed

lemma ledgerCall_ieee_total:
  assumes "rm_positions rmi = rm_positions rme"
    and "rm_totalExposure rmi = rm_totalExposure rme"
    and "exactStep rmi c"
  shows "rm_totalExposure (ledgerCall_ieee rmi c) = rm_totalExposure (ledgerCall rme c)"
proof (cases c)
  case (RecordPosition mid sizeUsd outc sd entryPrice now)
  then show ?thesis
    using assms
    by (simp add: recordPosition_ieee_def recordPosition_def Let_def exact_double_def)
next
  case (ClosePosition mid outc exitPrice)
  then show ?thesis
    using assms
    by (auto simp add: closePosition_ieee_def closePosition_def closingPosition_def
        positionsOrEmpty_def Let_def exact_double_def split: option.splits list.splits)
qed

lemma ledgerCalls_ieee_positions:
  assumes "rm_positions rmi = rm_positions rme"
  shows "rm_positions (foldl ledgerCall_ieee rmi calls) = rm_positions (foldl ledgerCall rme calls)"
  using assms
proof (induction calls arbitrary: rmi rme)
  case Nil
  then show ?case by simp
next
  case (Cons c calls)
  show ?case
    unfolding foldl_Cons
    by (rule Cons.IH) (rule ledgerCall_ieee_positions [OF Cons.prems])
qed

lemma ledgerCalls_ieee_total:
  assumes "rm_positions rmi = rm_positions rme"
    and "rm_totalExposure rmi = rm_totalExposure rme"
    and "exactTotal rmi calls"
  shows "rm_totalExposure (foldl ledgerCall_ieee rmi calls)
           = rm_totalExposure (foldl ledgerCall rme calls)"
  using assms
proof (induction calls arbitrary: rmi rme)
  case Nil
  then show ?case by simp
next
  case (Cons c calls)
  from Cons.prems(3) have st: "exactStep rmi c" and rest: "exactTotal (ledgerCall_ieee rmi c) calls"
    by simp_all
  show ?case
    unfolding foldl_Cons
    by (rule Cons.IH [OF ledgerCall_ieee_positions [OF Cons.prems(1)]
                         ledgerCall_ieee_total [OF Cons.prems(1,2) st] rest])
qed

lemma map_of_marketExposures_ieee:
  "map_of (map (\<lambda>(marketId, positions). (marketId, sumSizeUsd_ieee positions)) al) mid
     = map_option sumSizeUsd_ieee (map_of al mid)"
  by (induction al) auto

text \<open>
  Claim C4, as the code has it. After any finite sequence of \<open>recordPosition\<close> and
  \<open>closePosition\<close> calls on a fresh ledger, in double precision: the snapshot lists as
  exposure of each market the sum of \<open>sizeUsd\<close> over that market's open positions, added
  in doubles in the order the positions were opened (a market it does not list has no
  open position); \<open>openPositions\<close> is the number of open positions; and
  \<open>totalExposureUsd\<close>, the running total, is the sum of \<open>sizeUsd\<close> over all open positions
  whenever no \<open>+=\<close> and no \<open>-=\<close> on the running total rounded.
\<close>

theorem exposure_snapshot_ieee:
  fixes cfg :: RiskConfig and t0 now :: int and calls :: "LedgerCall list"
  defines "rm \<equiv> ledgerCalls_ieee (new_RiskManager cfg t0) calls"
      and "opn \<equiv> openPositions_spec calls"
  defines "m \<equiv> fst (getExposure_ieee rm now)"
  shows "(\<forall>mid. case map_of (marketExposures m) mid of
                   Some e \<Rightarrow> e = sumSizeUsd_ieee (filter (\<lambda>p. pos_marketId p = mid) opn)
                 | None \<Rightarrow> filter (\<lambda>p. pos_marketId p = mid) opn = [])
       \<and> openPositions m = length opn
       \<and> (exactTotal (new_RiskManager cfg t0) calls
            \<longrightarrow> totalExposureUsd m = sum_list (map pos_sizeUsd opn))"
proof -
  let ?rme = "ledgerCalls (new_RiskManager cfg t0) calls"
  have inv: "ledger_inv ?rme opn"
    unfolding opn_def ledgerCalls_def openPositions_spec_def
    by (rule ledger_inv_calls [OF ledger_inv_new])
  have pos: "rm_positions rm = rm_positions ?rme"
    unfolding rm_def ledgerCalls_ieee_def ledgerCalls_def
    by (rule ledgerCalls_ieee_positions) simp
  have tot: "rm_totalExposure rm = rm_totalExposure ?rme"
    if "exactTotal (new_RiskManager cfg t0) calls"
    unfolding rm_def ledgerCalls_ieee_def ledgerCalls_def
    by (rule ledgerCalls_ieee_total [OF _ _ that]) simp_all
  have a: "exactTotal (new_RiskManager cfg t0) calls
             \<longrightarrow> totalExposureUsd m = sum_list (map pos_sizeUsd opn)"
    using inv tot by (simp add: m_def getExposure_ieee_def ledger_inv_def Let_def)
  have b: "openPositions m = length opn"
    using inv pos
    by (simp add: m_def getExposure_ieee_def ledger_inv_def Let_def foldl_length_concat)
  have c: "case map_of (marketExposures m) mid of
                   Some e \<Rightarrow> e = sumSizeUsd_ieee (filter (\<lambda>p. pos_marketId p = mid) opn)
                 | None \<Rightarrow> filter (\<lambda>p. pos_marketId p = mid) opn = []" for mid
  proof -
    have me: "map_of (marketExposures m) mid
                = map_option sumSizeUsd_ieee (map_of (rm_positions ?rme) mid)"
      using pos by (simp add: m_def getExposure_ieee_def Let_def map_of_marketExposures_ieee)
    have "positionsOrEmpty ?rme mid = filter (\<lambda>p. pos_marketId p = mid) opn"
      using inv by (simp add: ledger_inv_def)
    then show ?thesis unfolding me
      by (cases "map_of (rm_positions ?rme) mid") (simp_all add: positionsOrEmpty_def)
  qed
  show ?thesis using a b c by blast
qed

lemma fl_whole:
  "fl 0 = 0" "fl 30 = 30" "fl 50 = 50" "fl 80 = 80" "fl 100 = 100" "fl 150 = 150" "fl 180 = 180"
proof -
  show "fl 0 = 0" by (simp add: fl_def)
  show "fl 30 = 30" by (simp add: fl_eval [where k = 4] round_even_def Let_def)
  show "fl 50 = 50" by (simp add: fl_eval [where k = 5] round_even_def Let_def)
  show "fl 80 = 80" by (simp add: fl_eval [where k = 6] round_even_def Let_def)
  show "fl 100 = 100" by (simp add: fl_eval [where k = 6] round_even_def Let_def)
  show "fl 150 = 150" by (simp add: fl_eval [where k = 7] round_even_def Let_def)
  show "fl 180 = 180" by (simp add: fl_eval [where k = 7] round_even_def Let_def)
qed

lemma example_calls_exact: "exactTotal (new_RiskManager example_risk 0) example_calls"
  by (simp add: example_calls_def new_RiskManager_def recordPosition_ieee_def
      closePosition_ieee_def closingPosition_def positionsOrEmpty_def exact_double_def
      fl_whole Let_def)

theorem exposure_snapshot_ieee_witness:
  "totalExposureUsd (fst (getExposure_ieee
      (ledgerCalls_ieee (new_RiskManager example_risk 0) example_calls) 5)) = 80
   \<and> map_of (marketExposures (fst (getExposure_ieee
        (ledgerCalls_ieee (new_RiskManager example_risk 0) example_calls) 5))) ''m1'' = Some 30
   \<and> map_of (marketExposures (fst (getExposure_ieee
        (ledgerCalls_ieee (new_RiskManager example_risk 0) example_calls) 5))) ''m3'' = None
   \<and> openPositions (fst (getExposure_ieee
        (ledgerCalls_ieee (new_RiskManager example_risk 0) example_calls) 5)) = 2"
  using exposure_snapshot_ieee [where cfg = example_risk and ?t0.0 = 0
                                  and calls = example_calls and now = 5]
        example_calls_exact
  by (simp add: example_calls_def openPositions_spec_def ledgerCalls_ieee_def
      new_RiskManager_def recordPosition_ieee_def closePosition_ieee_def getExposure_ieee_def
      sumSizeUsd_ieee_def fl_whole Let_def)

text \<open>
  The running total and the recomputed sum part ways: after the three positions are opened
  and the first is closed, \<open>getExposure\<close> reports a total exposure of
  1169.4100000000003 (\<open>5143119570550130 / 2\<^sup>4\<^sup>2\<close>), while the two open positions add up to
  1169.41 (\<open>5143119570550129 / 2\<^sup>4\<^sup>2\<close>) in doubles, the exposure it reports for their
  market, and to yet another real number in exact arithmetic.
\<close>

theorem running_total_drift_counterexample:
  "totalExposureUsd (fst (getExposure_ieee
      (ledgerCalls_ieee (new_RiskManager example_risk 0) drift_calls) 5))
     = 5143119570550130 / 2 ^ 42
   \<and> map_of (marketExposures (fst (getExposure_ieee
        (ledgerCalls_ieee (new_RiskManager example_risk 0) drift_calls) 5))) ''m1''
     = Some (5143119570550129 / 2 ^ 42)
   \<and> map pos_sizeUsd (openPositions_spec drift_calls) = [882, 5056170191025603 / 2 ^ 44]
   \<and> sumSizeUsd_ieee (openPositions_spec drift_calls) = 5143119570550129 / 2 ^ 42
   \<and> sum_list (map pos_sizeUsd (openPositions_spec drift_calls)) = 20572478282200515 / 2 ^ 44
   \<and> totalExposureUsd (fst (getExposure_ieee
        (ledgerCalls_ieee (new_RiskManager example_risk 0) drift_calls) 5))
     \<noteq> sumSizeUsd_ieee (openPositions_spec drift_calls)
   \<and> totalExposureUsd (fst (getExposure_ieee
        (ledgerCalls_ieee (new_RiskManager example_risk 0) drift_calls) 5))
     \<noteq> sum_list (map pos_sizeUsd (openPositions_spec drift_calls))"
proof -
  let ?m = "fst (getExposure_ieee (ledgerCalls_ieee (new_RiskManager example_risk 0) drift_calls) 5)"
  have t: "totalExposureUsd ?m = 5143119570550130 / 2 ^ 42"
    unfolding drift_calls_def three_then_close
    by (simp only: getExposure_ieee_def Let_def drift_total fst_conv
        RiskManager.simps ExposureMetrics.simps if_distrib [of rm_totalExposure] if_cancel)
  have e: "map_of (marketExposures ?m) ''m1'' = Some (5143119570550129 / 2 ^ 42)"
    unfolding drift_calls_def three_then_close
    using drift_sum by (simp add: getExposure_ieee_def Let_def sumSizeUsd_ieee_def)
  have p: "map pos_sizeUsd (openPositions_spec drift_calls) = [882, 5056170191025603 / 2 ^ 44]"
    unfolding drift_calls_def three_then_close_spec by (simp add: fl_literals)
  have s: "sumSizeUsd_ieee (openPositions_spec drift_calls) = 5143119570550129 / 2 ^ 42"
    unfolding drift_calls_def three_then_close_spec
    using drift_sum by (simp add: sumSizeUsd_ieee_def)
  have r: "sum_list (map pos_sizeUsd (openPositions_spec drift_calls)) = 20572478282200515 / 2 ^ 44"
    unfolding p by simp
  have "(5143119570550130 / 2 ^ 42 :: real) \<noteq> 5143119570550129 / 2 ^ 42"
    "(5143119570550130 / 2 ^ 42 :: real) \<noteq> 20572478282200515 / 2 ^ 44"
    by simp_all
  then show ?thesis
    unfolding t e p s r by simp
qed

section \<open>Lazy reset of the daily PnL\<close>

lemma month_old_ledger_eq:
  "month_old_ledger =
     \<lparr>rm_config = example_risk, rm_positions = [(''m1'', [])], rm_totalExposure = 0,
      rm_dailyPnl = - 50, rm_lastResetDate = 1705320000000\<rparr>"
  by (simp add: month_old_ledger_def ledgerCalls_def new_RiskManager_def recordPosition_def
      closePosition_def Let_def)

lemma civilDate_examples:
  "civilDate 1705320000000 = (2024, 1, 15)" "civilDate 1707998400000 = (2024, 2, 15)"
  by code_simp+

lemma getExposure_reset:
  "dailyPnlUsd (fst (getExposure rm now))
     = (if getDate now \<noteq> getDate (rm_lastResetDate rm) then 0 else rm_dailyPnl rm)
   \<and> rm_lastResetDate (snd (getExposure rm now))
     = (if getDate now \<noteq> getDate (rm_lastResetDate rm) then now else rm_lastResetDate rm)"
  by (simp add: getExposure_def Let_def)

lemma getExposure_same_day:
  "civilDate now = civilDate (rm_lastResetDate rm) \<Longrightarrow>
   dailyPnlUsd (fst (getExposure rm now)) = rm_dailyPnl rm \<and> snd (getExposure rm now) = rm"
  by (simp add: getExposure_def Let_def getDate_def)

text \<open>
  Claim C8. A snapshot taken on a calendar day other than the day of the last reset should
  report a daily PnL of 0 and move the reset day. \<open>getExposure\<close> compares days of the month
  only: a ledger last reset on 2024-01-15 with a realised loss of 50 USD, asked on
  2024-02-15, still reports \<open>-50\<close> and keeps its reset day.
\<close>

theorem getExposure_next_month_keeps_pnl:
  "civilDate (rm_lastResetDate month_old_ledger) = (2024, 1, 15)
   \<and> civilDate 1707998400000 = (2024, 2, 15)
   \<and> rm_dailyPnl month_old_ledger = - 50
   \<and> dailyPnlUsd (fst (getExposure month_old_ledger 1707998400000)) = - 50
   \<and> rm_lastResetDate (snd (getExposure month_old_ledger 1707998400000)) = 1705320000000"
  by (simp add: month_old_ledger_eq getExposure_def getDate_def civilDate_examples)

section \<open>Sizing\<close>





section \<open>Directional copies carry no entry price\<close>

lemma positionsOrEmpty_record:
  "positionsOrEmpty (recordPosition rm mid sizeUsd outc sd entryPrice now) mid
     = positionsOrEmpty rm mid
       @ [\<lparr>pos_marketId = mid, pos_outcome = outc, pos_side = sd, pos_sizeUsd = sizeUsd,
           pos_entryPrice = (case entryPrice of None \<Rightarrow> 0 | Some e \<Rightarrow> e),
           pos_timestamp = now\<rparr>]"
  by (simp add: positionsOrEmpty_def recordPosition_def Let_def update_conv' split: option.splits)

lemma executeCopyTrade_directional:
  assumes "directionalPath ct trade"
  shows "executeCopyTrade venue ct trade sz now =
     (let (orderResult, oe1) = placeOrder venue (ct_orderExecutor ct) (wt_marketId trade)
                                 (wt_outcome trade) (wt_side trade) (wt_price trade)
                                 (js_div sz (wt_price trade))
      in case orderResult of
           Some order \<Rightarrow>
             (True, ct\<lparr>ct_orderExecutor := oe1,
                       ct_riskManager :=
                         recordPosition (ct_riskManager ct) (wt_marketId trade)
                           sz (wt_outcome trade) (wt_side trade) None now\<rparr>)
         | None \<Rightarrow> (False, ct\<lparr>ct_orderExecutor := oe1\<rparr>))"
  using assms
  by (auto simp add: executeCopyTrade_def directionalPath_def Let_def split: option.splits)

lemma executeCopyTrade_directional_ledger:
  assumes "directionalPath ct trade" and "fst (executeCopyTrade venue ct trade sz now)"
  shows "ct_riskManager (snd (executeCopyTrade venue ct trade sz now))
           = recordPosition (ct_riskManager ct) (wt_marketId trade) sz
               (wt_outcome trade) (wt_side trade) None now"
  using assms(2) unfolding executeCopyTrade_directional [OF assms(1)]
  by (simp add: Let_def split: prod.splits option.splits)

lemma closePosition_zero_entry:
  assumes "filter (\<lambda>q. pos_outcome q = outc \<and> pos_side q = Buy) (positionsOrEmpty rm mid) = p # rest"
    and "pos_entryPrice p = 0"
  shows "fst (closePosition rm mid outc exitPrice) = Some 0
       \<and> rm_dailyPnl (snd (closePosition rm mid outc exitPrice)) = rm_dailyPnl rm"
proof (cases "map_of (rm_positions rm) mid")
  case None
  with assms(1) show ?thesis by (simp add: positionsOrEmpty_def)
next
  case (Some ps)
  with assms(1) have f: "filter (\<lambda>q. pos_outcome q = outc \<and> pos_side q = Buy) ps = p # rest"
    by (simp add: positionsOrEmpty_def)
  then have "ps \<noteq> []" by auto
  with Some f assms(2) show ?thesis
    by (simp add: closePosition_def Let_def split: option.splits)
qed

text \<open>
  Claim C9. A successful directional copy appends one position to the ledger, stored with
  entry price 0, because \<open>executeCopyTrade\<close> passes no entry price to \<open>recordPosition\<close>.
  Whenever \<open>closePosition\<close> closes that position, in whatever ledger state and at whatever
  exit price, it returns a realised PnL of 0 and leaves the daily PnL where it was.
\<close>

theorem directional_copy_zero_pnl:
  assumes "directionalPath ct trade"
    and "fst (executeCopyTrade venue ct trade sz now)"
  shows "\<exists>p. positionsOrEmpty (ct_riskManager (snd (executeCopyTrade venue ct trade sz now)))
                (wt_marketId trade)
              = positionsOrEmpty (ct_riskManager ct) (wt_marketId trade) @ [p]
            \<and> pos_entryPrice p = 0 \<and> pos_sizeUsd p = sz
            \<and> pos_outcome p = wt_outcome trade \<and> pos_side p = wt_side trade
            \<and> (\<forall>rm outc exitPrice rest.
                  filter (\<lambda>q. pos_outcome q = outc \<and> pos_side q = Buy)
                    (positionsOrEmpty rm (wt_marketId trade)) = p # rest
                  \<longrightarrow> fst (closePosition rm (wt_marketId trade) outc exitPrice) = Some 0
                    \<and> rm_dailyPnl (snd (closePosition rm (wt_marketId trade) outc exitPrice))
                        = rm_dailyPnl rm)"
proof -
  let ?p = "\<lparr>pos_marketId = wt_marketId trade, pos_outcome = wt_outcome trade,
             pos_side = wt_side trade, pos_sizeUsd = sz, pos_entryPrice = 0,
             pos_timestamp = now\<rparr>"
  have "positionsOrEmpty (ct_riskManager (snd (executeCopyTrade venue ct trade sz now)))
          (wt_marketId trade)
        = positionsOrEmpty (ct_riskManager ct) (wt_marketId trade) @ [?p]"
    by (simp add: executeCopyTrade_directional_ledger [OF assms] positionsOrEmpty_record)
  moreover have "pos_entryPrice ?p = 0" by simp
  ultimately show ?thesis
    using closePosition_zero_entry [where p = ?p]
    by (intro exI [of _ ?p]) (simp del: filter.simps)
qed

lemma directional_example:
  "directionalPath directional_trader example_trade"
  "fst (executeCopyTrade accepting_venue directional_trader example_trade 500 7)"
  by (simp_all add: directionalPath_def directional_trader_def new_CopyTrader_def
      example_wallet_def executeCopyTrade_def placeOrder_def accepting_venue_def
      new_OrderExecutor_def truthy_def Let_def)

theorem directional_copy_zero_pnl_witness:
  "fst (closePosition
          (ct_riskManager (snd (executeCopyTrade accepting_venue directional_trader example_trade 500 7)))
          ''m1'' YES (Some (9 / 10))) = Some 0
   \<and> rm_dailyPnl (snd (closePosition
          (ct_riskManager (snd (executeCopyTrade accepting_venue directional_trader example_trade 500 7)))
          ''m1'' YES (Some (9 / 10)))) = 0"
proof -
  let ?rm = "ct_riskManager (snd (executeCopyTrade accepting_venue directional_trader example_trade 500 7))"
  from directional_copy_zero_pnl [OF directional_example] obtain p where
    a: "positionsOrEmpty ?rm (wt_marketId example_trade)
          = positionsOrEmpty (ct_riskManager directional_trader) (wt_marketId example_trade) @ [p]"
    and b: "pos_outcome p = wt_outcome example_trade" "pos_side p = wt_side example_trade"
    and c: "\<forall>rm outc exitPrice rest.
              filter (\<lambda>q. pos_outcome q = outc \<and> pos_side q = Buy)
                (positionsOrEmpty rm (wt_marketId example_trade)) = p # rest
              \<longrightarrow> fst (closePosition rm (wt_marketId example_trade) outc exitPrice) = Some 0
                \<and> rm_dailyPnl (snd (closePosition rm (wt_marketId example_trade) outc exitPrice))
                    = rm_dailyPnl rm"
    by blast
  have e: "positionsOrEmpty (ct_riskManager directional_trader) (wt_marketId example_trade) = []"
    by (simp add: positionsOrEmpty_def directional_trader_def new_CopyTrader_def new_RiskManager_def)
  have f: "filter (\<lambda>q. pos_outcome q = YES \<and> pos_side q = Buy)
             (positionsOrEmpty ?rm (wt_marketId example_trade)) = p # []"
    using a b e by (simp add: example_trade_def)
  have g: "rm_dailyPnl ?rm = 0"
    using executeCopyTrade_directional_ledger [OF directional_example]
    by (simp add: recordPosition_def Let_def directional_trader_def new_CopyTrader_def
        new_RiskManager_def)
  from c [rule_format, OF f, of "Some (9 / 10)"] g show ?thesis
    by (simp add: example_trade_def)
qed

section \<open>Partial failure of a hedged pair\<close>

lemma placeOrder_Some:
  assumes "placeOrder venue oe mid outc sd price sz = (Some order, oe')"
  shows "map_of (oe_activeOrders oe') (ord_orderId order) = Some order"
    and "ord_status order = Pending"
    and "oe_venueLog oe' = oe_venueLog oe @ [PlaceOrderCall mid outc sd price sz]"
  using assms
  by (auto simp: placeOrder_def Let_def update_conv' split: PlaceAnswer.splits option.splits if_splits)

lemma placeOrder_None:
  assumes "placeOrder venue oe mid outc sd price sz = (None, oe')"
  shows "oe' = oe\<lparr>oe_venueLog := oe_venueLog oe @ [PlaceOrderCall mid outc sd price sz]\<rparr>"
  using assms
  by (auto simp: placeOrder_def Let_def split: PlaceAnswer.splits option.splits if_splits)

lemma cancelOrder_tracked:
  assumes "map_of (oe_activeOrders oe) oid = Some order"
  shows "oe_venueLog (snd (cancelOrder venue oe oid)) = oe_venueLog oe @ [CancelOrderCall oid]"
    and "map_of (oe_activeOrders (snd (cancelOrder venue oe oid))) oid
           = Some (order\<lparr>ord_status :=
                     if onCancelOrder venue (oe_venueLog oe @ [CancelOrderCall oid]) = CancelReturns True
                     then Cancelled else ord_status order\<rparr>)"
  using assms
  by (auto simp: cancelOrder_def Let_def update_conv' split: CancelAnswer.splits)

text \<open>
  Claim C1, as the code has it. When exactly one of the two \<open>placeOrder\<close> calls of a
  hedged arbitrage execution returns an order, \<open>executeArbitrageTrade\<close> returns false and
  the risk manager is the one it started with, so no position is recorded and exposure
  and position lists are unchanged. For the order that was placed it calls \<open>cancelOrder\<close>
  once and does not look at the result: one cancel request for its id is the last call
  sent to the venue, and the tracked order is marked cancelled exactly when the venue
  accepts the request; when the venue refuses or the request fails, the order stays
  pending.
\<close>

theorem executeArbitrageTrade_partial_failure:
  fixes venue :: Venue and ct :: CopyTrader and arbOpp :: ArbitrageOpportunity
    and positionSizeUsd :: real and now :: int
  defines "yes \<equiv> placeOrder venue (ct_orderExecutor ct) (opp_marketId arbOpp) YES Buy
                    (opp_yesPrice arbOpp) (js_div (positionSizeUsd * (1 / 2)) (opp_yesPrice arbOpp))"
  defines "no \<equiv> placeOrder venue (snd yes) (opp_marketId arbOpp) NO Buy
                   (opp_noPrice arbOpp) (js_div (positionSizeUsd * (1 / 2)) (opp_noPrice arbOpp))"
  defines "res \<equiv> executeArbitrageTrade venue ct arbOpp positionSizeUsd now"
  assumes one: "(fst yes = None) \<noteq> (fst no = None)"
  shows "\<not> fst res
       \<and> ct_riskManager (snd res) = ct_riskManager ct
       \<and> (\<exists>order. (fst yes = Some order \<or> fst no = Some order)
             \<and> oe_venueLog (ct_orderExecutor (snd res))
                 = oe_venueLog (snd no) @ [CancelOrderCall (ord_orderId order)]
             \<and> map_of (oe_activeOrders (ct_orderExecutor (snd res))) (ord_orderId order)
                 = Some (order\<lparr>ord_status :=
                      if onCancelOrder venue (oe_venueLog (snd no) @ [CancelOrderCall (ord_orderId order)])
                           = CancelReturns True
                      then Cancelled else Pending\<rparr>))"
proof -
  obtain yo oe1 where y: "yes = (yo, oe1)" by (cases yes)
  obtain no' oe2 where n: "no = (no', oe2)" by (cases no)
  have py: "placeOrder venue (ct_orderExecutor ct) (opp_marketId arbOpp) YES Buy
              (opp_yesPrice arbOpp) (js_div (positionSizeUsd / 2) (opp_yesPrice arbOpp)) = (yo, oe1)"
    using y by (simp add: yes_def)
  have pn: "placeOrder venue oe1 (opp_marketId arbOpp) NO Buy
              (opp_noPrice arbOpp) (js_div (positionSizeUsd / 2) (opp_noPrice arbOpp)) = (no', oe2)"
    using n y by (simp add: no_def)
  from one y n consider (yes_only) order where "yo = Some order" "no' = None"
    | (no_only) order where "yo = None" "no' = Some order"
    by (cases yo; cases no') auto
  then show ?thesis
  proof cases
    case yes_only
    have oe2: "oe_activeOrders oe2 = oe_activeOrders oe1"
      using placeOrder_None [OF pn [unfolded yes_only]] by simp
    have tr: "map_of (oe_activeOrders oe2) (ord_orderId order) = Some order"
      using placeOrder_Some(1) [OF py [unfolded yes_only]] oe2 by simp
    have st: "ord_status order = Pending"
      using placeOrder_Some(2) [OF py [unfolded yes_only]] .
    have res: "res = (False, ct\<lparr>ct_orderExecutor := snd (cancelOrder venue oe2 (ord_orderId order))\<rparr>)"
      by (simp add: res_def executeArbitrageTrade_def Let_def py pn yes_only)
    show ?thesis
      using cancelOrder_tracked [OF tr, of venue] st
      by (intro conjI exI [of _ order]) (simp_all add: res y n yes_only)
  next
    case no_only
    have tr: "map_of (oe_activeOrders oe2) (ord_orderId order) = Some order"
      using placeOrder_Some(1) [OF pn [unfolded no_only]] by simp
    have st: "ord_status order = Pending"
      using placeOrder_Some(2) [OF pn [unfolded no_only]] .
    have res: "res = (False, ct\<lparr>ct_orderExecutor := snd (cancelOrder venue oe2 (ord_orderId order))\<rparr>)"
      by (simp add: res_def executeArbitrageTrade_def Let_def py pn no_only)
    show ?thesis
      using cancelOrder_tracked [OF tr, of venue] st
      by (intro conjI exI [of _ order]) (simp_all add: res y n no_only)
  qed
qed

theorem executeArbitrageTrade_partial_failure_witness:
  "\<not> fst (executeArbitrageTrade yes_only_venue example_trader example_opportunity 500 7)
   \<and> ct_riskManager (snd (executeArbitrageTrade yes_only_venue example_trader example_opportunity 500 7))
       = ct_riskManager example_trader
   \<and> last (oe_venueLog (ct_orderExecutor
        (snd (executeArbitrageTrade yes_only_venue example_trader example_opportunity 500 7))))
       = CancelOrderCall ''y1''"
proof -
  let ?yes = "placeOrder yes_only_venue (ct_orderExecutor example_trader)
                (opp_marketId example_opportunity) YES Buy (opp_yesPrice example_opportunity)
                (js_div (500 * (1 / 2)) (opp_yesPrice example_opportunity))"
  let ?no = "placeOrder yes_only_venue (snd ?yes)
               (opp_marketId example_opportunity) NO Buy (opp_noPrice example_opportunity)
               (js_div (500 * (1 / 2)) (opp_noPrice example_opportunity))"
  let ?res = "executeArbitrageTrade yes_only_venue example_trader example_opportunity 500 7"
  have ey: "map_option ord_orderId (fst ?yes) = Some ''y1''"
    by (simp add: placeOrder_def yes_only_venue_def truthy_def Let_def)
  have en: "fst ?no = None"
    by (simp add: placeOrder_def yes_only_venue_def truthy_def Let_def)
  have h: "(fst ?yes = None) \<noteq> (fst ?no = None)"
    using ey en by auto
  from executeArbitrageTrade_partial_failure [OF h, of 7] obtain order where
    r: "\<not> fst ?res" "ct_riskManager (snd ?res) = ct_riskManager example_trader"
    and o: "fst ?yes = Some order \<or> fst ?no = Some order"
    and l: "oe_venueLog (ct_orderExecutor (snd ?res))
              = oe_venueLog (snd ?no) @ [CancelOrderCall (ord_orderId order)]"
    by blast
  from o ey en have "ord_orderId order = ''y1''" by auto
  with r l show ?thesis by simp
qed

text \<open>
  The cancel need not succeed. On the venue that places the YES leg only and refuses to
  cancel, exactly one leg is placed, the cancel request for it is answered with false,
  and after \<open>executeArbitrageTrade\<close> the order \<open>y1\<close> is still tracked as pending: the leg
  is left open.
\<close>

theorem executeArbitrageTrade_refused_cancel_counterexample:
  "map_option ord_orderId
     (fst (placeOrder yes_only_venue (ct_orderExecutor example_trader)
             (opp_marketId example_opportunity) YES Buy (opp_yesPrice example_opportunity)
             (js_div (500 * (1 / 2)) (opp_yesPrice example_opportunity)))) = Some ''y1''
   \<and> fst (placeOrder yes_only_venue
            (snd (placeOrder yes_only_venue (ct_orderExecutor example_trader)
                    (opp_marketId example_opportunity) YES Buy (opp_yesPrice example_opportunity)
                    (js_div (500 * (1 / 2)) (opp_yesPrice example_opportunity))))
            (opp_marketId example_opportunity) NO Buy (opp_noPrice example_opportunity)
            (js_div (500 * (1 / 2)) (opp_noPrice example_opportunity))) = None
   \<and> \<not> fst (executeArbitrageTrade yes_only_venue example_trader example_opportunity 500 7)
   \<and> last (oe_venueLog (ct_orderExecutor
        (snd (executeArbitrageTrade yes_only_venue example_trader example_opportunity 500 7))))
       = CancelOrderCall ''y1''
   \<and> map_option ord_status
        (map_of (oe_activeOrders (ct_orderExecutor
           (snd (executeArbitrageTrade yes_only_venue example_trader example_opportunity 500 7))))
           ''y1'') = Some Pending"
  by (simp add: executeArbitrageTrade_def placeOrder_def cancelOrder_def yes_only_venue_def
      example_trader_def new_CopyTrader_def new_OrderExecutor_def truthy_def Let_def)

section \<open>The copied-trade key\<close>

lemma executeArbitrageTrade_copiedTrades:
  "ct_copiedTrades (snd (executeArbitrageTrade venue ct arbOpp sz now)) = ct_copiedTrades ct"
  by (simp add: executeArbitrageTrade_def Let_def split: prod.splits)

lemma executeCopyTrade_copiedTrades:
  "ct_copiedTrades (snd (executeCopyTrade venue ct trade sz now)) = ct_copiedTrades ct"
  by (simp add: executeCopyTrade_def executeArbitrageTrade_copiedTrades Let_def
      split: prod.splits option.splits)

lemma processTrade_copied:
  "map_of (ct_copiedTrades ct) (tradeKey trade) \<noteq> None \<Longrightarrow>
   processTrade venue ct trade now = (False, ct)"
  by (simp add: processTrade_def Let_def)

lemma processTrade_cases:
  "processTrade venue ct trade now = (False, ct)
   \<or> processTrade venue ct trade now
       = (False, snd (executeCopyTrade venue ct trade (calculatePositionSize (ct_config ct) trade) now))
   \<or> processTrade venue ct trade now
       = (True, (snd (executeCopyTrade venue ct trade (calculatePositionSize (ct_config ct) trade) now))
                 \<lparr>ct_copiedTrades :=
                    AList.update (tradeKey trade) now
                      (ct_copiedTrades (snd (executeCopyTrade venue ct trade
                         (calculatePositionSize (ct_config ct) trade) now)))\<rparr>)"
  by (simp add: processTrade_def Let_def split: prod.splits)

lemma processTrade_marks_key:
  assumes "fst (processTrade venue ct trade now)"
  shows "map_of (ct_copiedTrades (snd (processTrade venue ct trade now))) (tradeKey trade) = Some now"
  using assms processTrade_cases [of venue ct trade now]
  by (auto simp: update_conv')

lemma processTrade_keeps_keys:
  assumes "map_of (ct_copiedTrades ct) k \<noteq> None"
  shows "map_of (ct_copiedTrades (snd (processTrade venue ct trade now))) k \<noteq> None"
  using assms processTrade_cases [of venue ct trade now]
  by (auto simp: update_conv' executeCopyTrade_copiedTrades)

lemma laterTrader_keeps_keys:
  assumes "laterTrader ct ct2" and "map_of (ct_copiedTrades ct) k \<noteq> None"
  shows "map_of (ct_copiedTrades ct2) k \<noteq> None"
  using assms
proof (induction rule: laterTrader.induct)
  case (later_same ct)
  then show ?case .
next
  case (later_processTrade ct ct1 venue trade now)
  then show ?case by (simp add: processTrade_keeps_keys)
next
  case (later_shared ct ct1 det rm oe)
  then show ?case by simp
qed

lemma tradeKey_no_txHash:
  "wt_txHash trade = None \<Longrightarrow>
   tradeKey trade = ''undefined_'' @ wt_marketId trade @ ''_'' @ outcomeString (wt_outcome trade)
                      @ ''_'' @ sideString (wt_side trade)"
  by (simp add: tradeKey_def)

text \<open>
  Claim C10. For two trade events without a transaction id that share market id, outcome
  and side, the composite key is the same string, starting with \<open>undefined\<close>. Once
  \<open>processTrade\<close> has returned true for the first, \<open>processTrade\<close> on the second returns
  false and changes nothing, at any later moment and whatever its time stamp, price and
  size are.
\<close>

theorem processTrade_second_without_txHash:
  assumes "wt_txHash t1 = None" and "wt_txHash t2 = None"
    and "wt_marketId t2 = wt_marketId t1" and "wt_outcome t2 = wt_outcome t1"
    and "wt_side t2 = wt_side t1"
    and "fst (processTrade venue ct t1 now1)"
    and "laterTrader (snd (processTrade venue ct t1 now1)) ct2"
  shows "tradeKey t2 = tradeKey t1
       \<and> tradeKey t1 = ''undefined_'' @ wt_marketId t1 @ ''_'' @ outcomeString (wt_outcome t1)
                          @ ''_'' @ sideString (wt_side t1)
       \<and> map_of (ct_copiedTrades ct2) (tradeKey t2) \<noteq> None
       \<and> processTrade venue2 ct2 t2 now2 = (False, ct2)"
proof -
  have k: "tradeKey t2 = tradeKey t1"
    using assms(1-5) by (simp add: tradeKey_def)
  have "map_of (ct_copiedTrades (snd (processTrade venue ct t1 now1))) (tradeKey t1) \<noteq> None"
    using processTrade_marks_key [OF assms(6)] by simp
  then have m: "map_of (ct_copiedTrades ct2) (tradeKey t2) \<noteq> None"
    using laterTrader_keeps_keys [OF assms(7)] k by simp
  show ?thesis
    using k m tradeKey_no_txHash [OF assms(1)] processTrade_copied [OF m] by simp
qed

lemma example_copy_succeeds:
  "fst (processTrade accepting_venue directional_trader example_trade 7)"
  by (simp add: processTrade_def executeCopyTrade_def placeOrder_def accepting_venue_def
      directional_trader_def new_CopyTrader_def new_ArbitrageDetector_def new_RiskManager_def
      new_OrderExecutor_def example_wallet_def example_trade_def example_risk_def
      shouldCopyWallet_def calculatePositionSize_def canOpenPosition_def
      canOpenPosition_warning_def positionsOrEmpty_def sumSizeUsd_def getOpportunity_def
      tradeKey_def truthy_def Let_def)

theorem processTrade_second_without_txHash_witness:
  "processTrade accepting_venue
     (snd (processTrade accepting_venue directional_trader example_trade 7))
     (example_trade\<lparr>wt_price := 3 / 4, wt_size := 40000, wt_sizeUsd := 30000,
                    wt_timestamp := Date 9000000\<rparr>) 8
   = (False, snd (processTrade accepting_venue directional_trader example_trade 7))"
  using processTrade_second_without_txHash
          [where ?t1.0 = example_trade
             and ?t2.0 = "example_trade\<lparr>wt_price := 3 / 4, wt_size := 40000,
                                         wt_sizeUsd := 30000, wt_timestamp := Date 9000000\<rparr>"
             and venue = accepting_venue and ct = directional_trader and ?now1.0 = 7
             and ?ct2.0 = "snd (processTrade accepting_venue directional_trader example_trade 7)"
             and ?venue2.0 = accepting_venue and ?now2.0 = 8,
           OF _ _ _ _ _ example_copy_succeeds later_same]
  by (simp add: example_trade_def)

section \<open>Detection of internal arbitrage\<close>





lemma detectInternalArbitrage_asks:
  assumes "getBestAsk ob YES = Some y" and "getBestAsk ob NO = Some n"
  shows "detectInternalArbitrage mid ob now =
     (if (ask_price y + ask_price n) * (101 / 100) < 99 / 100
      then Some \<lparr>opp_marketId = mid,
                 opp_marketQuestion = (case ob_question ob of
                                         None \<Rightarrow> mid
                                       | Some q \<Rightarrow> if q = [] then mid else q),
                 opp_opportunityType = Internal,
                 opp_yesPrice = ask_price y, opp_noPrice = ask_price n,
                 opp_totalCost = ask_price y + ask_price n,
                 opp_profitPct = js_div (1 - (ask_price y + ask_price n) * (101 / 100))
                                   ((ask_price y + ask_price n) * (101 / 100)),
                 opp_profitUsd = js_div (1 - (ask_price y + ask_price n) * (101 / 100))
                                   ((ask_price y + ask_price n) * (101 / 100)),
                 opp_liquidityYes = (case ask_size y of None \<Rightarrow> 0 | Some sz \<Rightarrow> sz) * ask_price y,
                 opp_liquidityNo = (case ask_size n of None \<Rightarrow> 0 | Some sz \<Rightarrow> sz) * ask_price n,
                 opp_timestamp = now\<rparr>
      else None)"
  unfolding detectInternalArbitrage_def Let_def assms by simp


lemma example_best_asks:
  "getBestAsk example_book YES = Some \<lparr>ask_price = 48 / 100, ask_size = Some 5000\<rparr>"
  "getBestAsk example_book NO = Some \<lparr>ask_price = 49 / 100, ask_size = Some 4000\<rparr>"
  by (simp_all add: getBestAsk_def example_book_def)



section \<open>The opportunity cache\<close>

lemma foldl_update_lookup:
  "map_of (foldl (\<lambda>m opp. AList.update (opp_marketId opp) opp m) al opps) mid
     = (case filter (\<lambda>opp. opp_marketId opp = mid) opps of
          [] \<Rightarrow> map_of al mid
        | x # xs \<Rightarrow> Some (last (x # xs)))"
proof (induction opps arbitrary: al)
  case Nil
  show ?case by simp
next
  case (Cons o1 opps)
  show ?case
    unfolding foldl_Cons Cons.IH
    by (simp add: update_conv' split: list.splits)
qed

lemma scanMarket_marketId:
  "scanMarket cfg fetch mid now = Some opp \<Longrightarrow> opp_marketId opp = mid"
  by (auto simp: scanMarket_def detectInternalArbitrage_def detectCrossPlatformArbitrage_def
      Let_def split: BookFetch.splits option.splits if_splits)

lemma filter_found:
  "filter (\<lambda>opp. opp_marketId opp = mid)
     (concat (map (\<lambda>r. case r of None \<Rightarrow> [] | Some opp \<Rightarrow> [opp])
        (map (\<lambda>(m, fetch). scanMarket cfg fetch m now) scans)))
   = concat (map (\<lambda>r. case r of None \<Rightarrow> [] | Some opp \<Rightarrow> [opp])
       (map (\<lambda>(m, fetch). scanMarket cfg fetch m now)
          (filter (\<lambda>(m, fetch). m = mid) scans)))"
  by (induction scans) (auto split: option.splits dest: scanMarket_marketId)

text \<open>
  Claim C3, as the code has it: after \<open>scanMarkets\<close> the cache entry of a market id is
  the last opportunity that the scans of that market in the batch found; when they found
  none (no opportunity, or the fetch failed) the entry is what it was before, so an
  earlier opportunity stays in the cache. For a batch of one scan: a found opportunity
  replaces the entry, nothing found leaves it.
\<close>

theorem scanMarkets_cache:
  "getOpportunity (snd (scanMarkets det scans now)) mid
     = (case concat (map (\<lambda>r. case r of None \<Rightarrow> [] | Some opp \<Rightarrow> [opp])
               (map (\<lambda>(m, fetch). scanMarket (ad_config det) fetch m now)
                  (filter (\<lambda>(m, fetch). m = mid) scans))) of
          [] \<Rightarrow> getOpportunity det mid
        | opp # opps \<Rightarrow> Some (last (opp # opps)))
   \<and> getOpportunity (snd (scanMarkets det [(mid, fetch)] now)) mid
       = (case scanMarket (ad_config det) fetch mid now of
            None \<Rightarrow> getOpportunity det mid
          | Some opp \<Rightarrow> Some opp)"
proof -
  have a: "getOpportunity (snd (scanMarkets det scans now)) mid
     = (case concat (map (\<lambda>r. case r of None \<Rightarrow> [] | Some opp \<Rightarrow> [opp])
               (map (\<lambda>(m, fetch). scanMarket (ad_config det) fetch m now)
                  (filter (\<lambda>(m, fetch). m = mid) scans))) of
          [] \<Rightarrow> getOpportunity det mid
        | opp # opps \<Rightarrow> Some (last (opp # opps)))" for scans
    unfolding getOpportunity_def
    using filter_found [of mid "ad_config det" now scans]
    by (simp add: scanMarkets_def Let_def foldl_update_lookup del: last.simps)
  show ?thesis
    using a [of scans] a [of "[(mid, fetch)]"]
    by (simp split: option.splits)
qed

lemma example_book_detect:
  "detectInternalArbitrage ''m1'' example_book 1 = Some example_opportunity"
  unfolding detectInternalArbitrage_asks [OF example_best_asks]
  by (simp add: example_opportunity_def js_div_def example_book_def)

lemma example_book_scan:
  "scanMarket example_arb (Book example_book) ''m1'' 1 = Some example_opportunity"
  by (simp add: scanMarket_def example_book_detect isValid_def example_arb_def
      example_opportunity_def)

lemma scanned_detector_eq:
  "scanned_detector = \<lparr>ad_config = example_arb,
                        ad_activeOpportunities = [(''m1'', example_opportunity)]\<rparr>"
proof -
  have "ad_config (new_ArbitrageDetector example_arb) = example_arb"
    by (simp add: new_ArbitrageDetector_def)
  then show ?thesis
    by (simp add: scanned_detector_def scanMarkets_def example_book_scan Let_def)
       (simp add: new_ArbitrageDetector_def example_opportunity_def)
qed

lemma later_book_scan: "scanMarket example_arb (Book later_book) ''m1'' 2 = None"
  by (simp add: scanMarket_def detectInternalArbitrage_def getBestAsk_def later_book_def
      example_arb_def Let_def)

theorem scanMarkets_cache_witness:
  "getOpportunity (snd (scanMarkets scanned_detector [(''m1'', Book later_book)] 2)) ''m1''
     = Some example_opportunity
   \<and> getOpportunity (snd (scanMarkets (new_ArbitrageDetector example_arb)
                             [(''m1'', Book example_book)] 1)) ''m1''
     = Some example_opportunity"
  using scanMarkets_cache [of scanned_detector "[(''m1'', Book later_book)]" 2 "''m1''"
                              "Book later_book"]
        scanMarkets_cache [of "new_ArbitrageDetector example_arb" "[(''m1'', Book example_book)]"
                              1 "''m1''" "Book example_book"]
        scanned_detector_eq later_book_scan
  by (simp add: getOpportunity_def scanned_detector_def new_ArbitrageDetector_def)

text \<open>
  A scan that finds nothing does not clear the entry: the first scan of market \<open>m1\<close>
  caches an opportunity; the next scan of \<open>m1\<close> finds none, and the cache still holds the
  earlier opportunity, which \<open>hasOpportunity\<close> goes on to report.
\<close>

theorem scanMarkets_stale_counterexample:
  "getOpportunity scanned_detector ''m1'' = Some example_opportunity
   \<and> scanMarket (ad_config scanned_detector) (Book later_book) ''m1'' 2 = None
   \<and> fst (scanMarkets scanned_detector [(''m1'', Book later_book)] 2) = []
   \<and> getOpportunity (snd (scanMarkets scanned_detector [(''m1'', Book later_book)] 2)) ''m1''
       = Some example_opportunity
   \<and> hasOpportunity (snd (scanMarkets scanned_detector [(''m1'', Book later_book)] 2)) ''m1''"
  using later_book_scan
  by (simp add: scanned_detector_eq getOpportunity_def hasOpportunity_def scanMarkets_def
      isValid_def example_opportunity_def example_arb_def Let_def)

section \<open>Duplicates within five seconds\<close>

lemma isNewTrade_loop_duplicate:
  assumes "e \<in> set history"
    and "wt_marketId e = wt_marketId trade" and "wt_outcome e = wt_outcome trade"
    and "wt_side e = wt_side trade"
    and "getTime (wt_timestamp e) = Some a" and "getTime (wt_timestamp trade) = Some b"
    and "\<bar>a - b\<bar> < 5000"
  shows "\<not> isNewTrade_loop history trade"
  using assms by (induction history) auto

lemma foldl_update_address:
  assumes "\<forall>address config. map_of m address = Some config \<longrightarrow> wc_address config = address"
  shows "\<forall>address config. map_of (foldl (\<lambda>m wc. AList.update (wc_address wc) wc m) m wcs) address
            = Some config \<longrightarrow> wc_address config = address"
  using assms
proof (induction wcs arbitrary: m)
  case Nil
  then show ?case by simp
next
  case (Cons wc wcs)
  show ?case
    unfolding foldl_Cons
    by (rule Cons.IH) (use Cons.prems in \<open>auto simp: update_conv'\<close>)
qed

lemma monitor_inv_new: "monitor_inv (new_WalletMonitor walletConfigs hasCallback)"
proof -
  let ?configs = "foldl (\<lambda>m wc. AList.update (wc_address wc) wc m) []
                    (filter wc_enabled walletConfigs)"
  have a: "\<forall>address config. map_of ?configs address = Some config
             \<longrightarrow> wc_address config = address"
    by (rule foldl_update_address) simp
  have b: "wm_walletConfigs (new_WalletMonitor walletConfigs hasCallback) = ?configs"
    "wm_emitted (new_WalletMonitor walletConfigs hasCallback) = []"
    by (simp_all add: new_WalletMonitor_def Let_def)
  show ?thesis
    unfolding monitor_inv_def b using a by (intro conjI) (blast, simp)
qed

lemma parseTrade_address:
  "parseTrade tradeData config now = Some trade \<Longrightarrow> wt_walletAddress trade = wc_address config"
  by (auto simp: parseTrade_def split: option.splits if_splits)

lemma checkWallet_position_same:
  assumes "checkWallet_position wm walletAddress tradeData = Some wm1"
  shows "wm_walletConfigs wm1 = wm_walletConfigs wm" and "wm_tradeHistory wm1 = wm_tradeHistory wm"
    and "wm_lastTradeTimestamps wm1 = wm_lastTradeTimestamps wm"
    and "wm_emitted wm1 = wm_emitted wm" and "wm_callbacks wm1 = wm_callbacks wm"
  using assms
  by (auto simp: checkWallet_position_def Let_def split: option.splits if_splits)

lemma checkWallet_position_inv:
  assumes "checkWallet_position wm walletAddress tradeData = Some wm1" and "monitor_inv wm"
  shows "monitor_inv wm1"
  using assms(2) checkWallet_position_same [OF assms(1)]
  by (simp add: monitor_inv_def historyOf_def)

lemma checkWallet_emit_inv:
  assumes "monitor_inv wm" and "wt_walletAddress trade = walletAddress"
  shows "monitor_inv (checkWallet_emit wm walletAddress trade)"
  using assms
  by (auto simp: monitor_inv_def checkWallet_emit_def historyOf_def update_conv')

lemma checkWallet_trade_inv:
  assumes "monitor_inv wm" and "wc_address config = walletAddress"
  shows "monitor_inv (checkWallet_trade wm walletAddress config tradeData now)"
proof (cases "parseTrade tradeData config now")
  case None
  then show ?thesis using assms(1) by (simp add: checkWallet_trade_def)
next
  case (Some trade)
  have addr: "wt_walletAddress trade = walletAddress"
    using parseTrade_address [OF Some] assms(2) by simp
  show ?thesis
  proof (cases "checkWallet_position wm walletAddress tradeData")
    case None
    then show ?thesis using assms(1) Some by (simp add: checkWallet_trade_def)
  next
    case (Some wm1)
    have "monitor_inv wm1" by (rule checkWallet_position_inv [OF Some assms(1)])
    then show ?thesis
      using Some \<open>parseTrade tradeData config now = Some trade\<close> addr
      by (simp add: checkWallet_trade_def checkWallet_emit_inv)
  qed
qed

lemma checkWallet_trades_inv:
  assumes "monitor_inv wm" and "wc_address config = walletAddress"
  shows "monitor_inv (foldl (\<lambda>w tradeData. checkWallet_trade w walletAddress config tradeData now)
                        wm trades)"
  using assms(1)
  by (induction trades arbitrary: wm) (simp_all add: checkWallet_trade_inv [OF _ assms(2)])

lemma checkWallet_inv:
  assumes "monitor_inv wm"
  shows "monitor_inv (checkWallet wm walletAddress fetch now)"
proof (cases "map_of (wm_walletConfigs wm) walletAddress")
  case None
  then show ?thesis using assms by (simp add: checkWallet_def)
next
  case (Some config)
  then have a: "wc_address config = walletAddress"
    using assms unfolding monitor_inv_def by blast
  have "monitor_inv (wm\<lparr>wm_checkCount := c\<rparr>)" for c
    using assms by (simp add: monitor_inv_def historyOf_def)
  then show ?thesis
    using assms Some checkWallet_trades_inv [OF _ a]
    by (simp add: checkWallet_def Let_def split: TradesFetch.splits)
qed

lemma reachableMonitor_inv: "reachableMonitor wm \<Longrightarrow> monitor_inv wm"
  by (induction rule: reachableMonitor.induct) (simp_all add: monitor_inv_new checkWallet_inv)

lemma isNewTrade_duplicate:
  assumes "e \<in> set (historyOf wm (wt_walletAddress trade))"
    and "wt_marketId e = wt_marketId trade" and "wt_outcome e = wt_outcome trade"
    and "wt_side e = wt_side trade"
    and "getTime (wt_timestamp e) = Some a" and "getTime (wt_timestamp trade) = Some b"
    and "\<bar>a - b\<bar> < 5000"
  shows "\<not> isNewTrade wm trade"
  unfolding isNewTrade_def by (rule isNewTrade_loop_duplicate [OF assms])

text \<open>
  Claim C7. In every monitor that the constructor and any sequence of polls can produce:
  a fetched trade that shares market id, outcome and side with a trade already emitted
  for the same wallet, with time stamps less than 5000 ms apart, is not new for
  \<open>isNewTrade\<close>, and the loop body leaves the emitted trades, the history, the last time
  stamps and the callback log as they were. This holds whether or not the trade carries a
  transaction id, so in particular for a trade without one.
\<close>

theorem duplicate_within_5s_not_emitted:
  fixes wm :: WalletMonitor and walletAddress :: string and config :: WalletConfig
    and tradeData :: TradeData and now a b :: int
  defines "wm' \<equiv> checkWallet_trade wm walletAddress config tradeData now"
  assumes "reachableMonitor wm"
    and "map_of (wm_walletConfigs wm) walletAddress = Some config"
    and "parseTrade tradeData config now = Some trade"
    and "e \<in> set (wm_emitted wm)" and "wt_walletAddress e = walletAddress"
    and "wt_marketId e = wt_marketId trade" and "wt_outcome e = wt_outcome trade"
    and "wt_side e = wt_side trade"
    and "getTime (wt_timestamp e) = Some a" and "getTime (wt_timestamp trade) = Some b"
    and "\<bar>a - b\<bar> < 5000"
  shows "\<not> isNewTrade wm trade
       \<and> wm_emitted wm' = wm_emitted wm
       \<and> wm_tradeHistory wm' = wm_tradeHistory wm
       \<and> wm_lastTradeTimestamps wm' = wm_lastTradeTimestamps wm
       \<and> wm_callbacks wm' = wm_callbacks wm"
proof -
  have inv: "monitor_inv wm" by (rule reachableMonitor_inv) fact
  have "wc_address config = walletAddress"
    using inv assms(3) unfolding monitor_inv_def by blast
  then have addr: "wt_walletAddress trade = walletAddress"
    using parseTrade_address [OF assms(4)] by simp
  have "e \<in> set (historyOf wm (wt_walletAddress e))"
    using inv assms(5) unfolding monitor_inv_def by blast
  then have h: "e \<in> set (historyOf wm (wt_walletAddress trade))"
    using addr assms(6) by simp
  have dup: "\<not> isNewTrade w trade" if "wm_tradeHistory w = wm_tradeHistory wm" for w
  proof -
    have "historyOf w (wt_walletAddress trade) = historyOf wm (wt_walletAddress trade)"
      using that by (simp add: historyOf_def)
    with h have "e \<in> set (historyOf w (wt_walletAddress trade))" by simp
    then show ?thesis
      by (rule isNewTrade_duplicate) fact+
  qed
  show ?thesis
  proof (cases "checkWallet_position wm walletAddress tradeData")
    case None
    then show ?thesis using dup [of wm] assms(4) by (simp add: wm'_def checkWallet_trade_def)
  next
    case (Some wm1)
    note same = checkWallet_position_same [OF Some]
    have "wm' = wm1"
      using Some assms(4) dup [OF same(2)] by (simp add: wm'_def checkWallet_trade_def)
    then show ?thesis using dup [of wm] same by simp
  qed
qed

lemma polled_monitor_eval:
  "map_of (wm_walletConfigs polled_monitor) ''0x1234'' = Some example_wallet"
  "wm_emitted polled_monitor
     = [\<lparr>wt_walletAddress = ''0x1234'', wt_walletName = ''gabagool22'', wt_marketId = ''m1'',
         wt_marketQuestion = ''Will BTC hit 50k?'', wt_outcome = YES, wt_side = Buy,
         wt_price = 1 / 2, wt_size = 1000, wt_sizeUsd = 1000 * (1 / 2),
         wt_timestamp = Date 1700000000000, wt_txHash = None\<rparr>]"
  by (simp_all add: polled_monitor_def checkWallet_def checkWallet_trade_def
      checkWallet_position_def checkWallet_emit_def isNewTrade_def historyOf_def
      parseTrade_def new_WalletMonitor_def first_tradeData_def example_wallet_def Let_def)

theorem duplicate_within_5s_not_emitted_witness:
  "wm_emitted (checkWallet_trade polled_monitor ''0x1234'' example_wallet second_tradeData
                 1700000005500) = wm_emitted polled_monitor
   \<and> wm_tradeHistory (checkWallet_trade polled_monitor ''0x1234'' example_wallet second_tradeData
                 1700000005500) = wm_tradeHistory polled_monitor
   \<and> wm_lastTradeTimestamps (checkWallet_trade polled_monitor ''0x1234'' example_wallet
                 second_tradeData 1700000005500) = wm_lastTradeTimestamps polled_monitor
   \<and> wm_callbacks (checkWallet_trade polled_monitor ''0x1234'' example_wallet second_tradeData
                 1700000005500) = wm_callbacks polled_monitor"
proof -
  let ?e = "\<lparr>wt_walletAddress = ''0x1234'', wt_walletName = ''gabagool22'', wt_marketId = ''m1'',
         wt_marketQuestion = ''Will BTC hit 50k?'', wt_outcome = YES, wt_side = Buy,
         wt_price = 1 / 2, wt_size = 1000, wt_sizeUsd = 1000 * (1 / 2),
         wt_timestamp = Date 1700000000000, wt_txHash = None\<rparr>"
  let ?t = "\<lparr>wt_walletAddress = ''0x1234'', wt_walletName = ''gabagool22'', wt_marketId = ''m1'',
         wt_marketQuestion = ''Will BTC hit 50k?'', wt_outcome = YES, wt_side = Buy,
         wt_price = 3 / 5, wt_size = 70, wt_sizeUsd = 70 * (3 / 5),
         wt_timestamp = Date 1700000004999, wt_txHash = None\<rparr>"
  have r: "reachableMonitor polled_monitor"
    unfolding polled_monitor_def by (rule reachable_checkWallet [OF reachable_new])
  have p: "parseTrade second_tradeData example_wallet 1700000005500 = Some ?t"
    by (simp add: parseTrade_def second_tradeData_def first_tradeData_def example_wallet_def)
  have e: "?e \<in> set (wm_emitted polled_monitor)"
    by (simp add: polled_monitor_eval)
  show ?thesis
    using duplicate_within_5s_not_emitted [OF r polled_monitor_eval(1) p e,
            of 1700000000000 1700000004999]
    by simp
qed

end
